theory Spec2Isabelle
  imports Complex_Main "HOL-Library.AList"
begin

section \<open>JavaScript values\<close>

text \<open>
  The values \<open>index.ts\<close> handles are what \<open>JSON.parse\<close> returns, plus \<open>undefined\<close>
  (an absent property, an absent option). An object is the list of its properties in
  insertion order; only the first binding of a key counts, so a list with a repeated
  key stands for the object of its first bindings. The engine lists integer-like keys
  before the others when it enumerates an object; that order is left to the serializer,
  a parameter below, and no statement here depends on it. Numbers are the finite ones
  (JSON has no \<open>NaN\<close>).
\<close>

datatype jsval =
    JUndefined
  | JNull
  | JBool bool
  | JNum rat
  | JStr string
  | JArr "jsval list"
  | JObj "(string \<times> jsval) list"

type_synonym props = "(string \<times> jsval) list"

text \<open>\<open>if (v)\<close>, \<open>!v\<close>, \<open>v ? a : b\<close>: \<open>false\<close>, \<open>0\<close>, \<open>""\<close>, \<open>null\<close> and \<open>undefined\<close> are falsy.\<close>

fun truthy :: "jsval \<Rightarrow> bool" where
  "truthy JUndefined = False"
| "truthy JNull = False"
| "truthy (JBool b) = b"
| "truthy (JNum n) = (n \<noteq> 0)"
| "truthy (JStr s) = (s \<noteq> [])"
| "truthy (JArr xs) = True"
| "truthy (JObj kvs) = True"

fun js_typeof :: "jsval \<Rightarrow> string" where
  "js_typeof JUndefined = ''undefined''"
| "js_typeof JNull = ''object''"
| "js_typeof (JBool b) = ''boolean''"
| "js_typeof (JNum n) = ''number''"
| "js_typeof (JStr s) = ''string''"
| "js_typeof (JArr xs) = ''object''"
| "js_typeof (JObj kvs) = ''object''"

definition nullish :: "jsval \<Rightarrow> bool" where
  "nullish v = (v = JNull \<or> v = JUndefined)"

text \<open>\<open>a ?? b\<close>\<close>

definition nullish_or :: "jsval \<Rightarrow> jsval \<Rightarrow> jsval" where
  "nullish_or a b = (if nullish a then b else a)"

text \<open>
  \<open>o.k\<close> on a value that is neither \<open>null\<close> nor \<open>undefined\<close>, for the property names
  the program reads (\<open>access_token\<close>, \<open>refresh_token\<close>, \<open>needRefresh\<close>, \<open>Customer\<close>,
  \<open>Account\<close>, \<open>Id\<close>, \<open>SyncToken\<close> and the input field_map): none of them is a built-in
  member of a string, a number, a boolean or an array, so only an object has them.
\<close>

definition obj_get :: "props \<Rightarrow> string \<Rightarrow> jsval" where
  "obj_get kvs k = (case map_of kvs k of None \<Rightarrow> JUndefined | Some v \<Rightarrow> v)"

fun js_get :: "jsval \<Rightarrow> string \<Rightarrow> jsval" where
  "js_get (JObj kvs) k = obj_get kvs k"
| "js_get v k = JUndefined"

text \<open>\<open>o?.k\<close>\<close>

definition js_opt_get :: "jsval \<Rightarrow> string \<Rightarrow> jsval" where
  "js_opt_get v k = (if nullish v then JUndefined else js_get v k)"

text \<open>Decimal digits of a natural number: array indices as property names, \<open>${75}\<close>.\<close>

function decimal :: "nat \<Rightarrow> string" where
  "decimal n =
     (if n < 10 then [char_of (48 + n)]
      else decimal (n div 10) @ [char_of (48 + n mod 10)])"
  by pat_completeness auto
termination
  by (relation "measure id") auto

declare decimal.simps [simp del]

text \<open>
  The own enumerable properties that an object spread \<open>{...v}\<close> copies: the properties
  of an object, the elements of an array under their indices, the characters of a
  string under theirs, nothing for any other value.
\<close>

fun own_props :: "jsval \<Rightarrow> props" where
  "own_props (JObj kvs) = AList.clearjunk kvs"
| "own_props (JArr xs) = zip (map decimal [0..<length xs]) xs"
| "own_props (JStr s) = zip (map decimal [0..<length s]) (map (\<lambda>c. JStr [c]) s)"
| "own_props v = []"

text \<open>
  \<open>{...a, ...b}\<close> assigns the properties of \<open>b\<close> onto a copy of \<open>a\<close> one by one: an
  existing key keeps its place and takes the new value, a new key goes to the end.
\<close>

definition assign_props :: "('k \<times> 'v) list \<Rightarrow> ('k \<times> 'v) list \<Rightarrow> ('k \<times> 'v) list" where
  "assign_props target src = foldl (\<lambda>acc (k, v). AList.update k v acc) target src"

definition spread :: "props \<Rightarrow> jsval \<Rightarrow> props" where
  "spread target v = assign_props target (own_props v)"

text \<open>The field_map of a value, as a map: what a spread of it would copy.\<close>

definition field_map :: "jsval \<Rightarrow> string \<rightharpoonup> jsval" where
  "field_map v = map_of (own_props v)"

section \<open>The runtime and the outside world\<close>

text \<open>
  An HTTP call as \<open>fetch(url, {method, headers, body})\<close> receives it. The body is
  absent, a string, or a \<open>URLSearchParams\<close> object (a form).
\<close>

datatype req_body = NoBody | TextBody string | FormBody "(string \<times> string) list"

record request =
  req_url :: string
  req_method :: string
  req_headers :: "(string \<times> string) list"
  req_body :: req_body

text \<open>What \<open>await fetch(...)\<close> gives: a rejection, or a response with status and text.\<close>

datatype fetch_result = Rejected string | Response nat string

text \<open>\<open>resp.ok\<close>\<close>

definition ok :: "nat \<Rightarrow> bool" where
  "ok status = (200 \<le> status \<and> status \<le> 299)"

text \<open>
  The library functions and the process environment the program is run with are
  parameters: \<open>JSON.parse\<close> (\<open>None\<close> is its \<open>SyntaxError\<close>), \<open>JSON.stringify(v)\<close> and
  \<open>JSON.stringify(v, null, 2)\<close>, the text of a number, \<open>encodeURIComponent\<close>,
  \<open>Buffer.from(s).toString("base64")\<close>, the three environment variables as they
  print in a template string, and the remote side: the answer to a request, given the
  requests sent before it.
\<close>

record env =
  JSON_parse :: "string \<Rightarrow> jsval option"
  JSON_stringify :: "jsval \<Rightarrow> string"
  JSON_stringify_pretty :: "jsval \<Rightarrow> string"
  Number_toString :: "rat \<Rightarrow> string"
  encodeURIComponent :: "string \<Rightarrow> string"
  base64 :: "string \<Rightarrow> string"
  CLIENT_ID :: string
  CLIENT_SECRET :: string
  REALM_ID :: string
  remote :: "request list \<Rightarrow> request \<Rightarrow> fetch_result"

text \<open>A value inside a template string, \<open>`${v}`\<close>.\<close>

fun intercalate :: "string \<Rightarrow> string list \<Rightarrow> string" where
  "intercalate sep [] = []"
| "intercalate sep [x] = x"
| "intercalate sep (x # y # ys) = x @ sep @ intercalate sep (y # ys)"

fun js_String :: "env \<Rightarrow> jsval \<Rightarrow> string" where
  "js_String e JUndefined = ''undefined''"
| "js_String e JNull = ''null''"
| "js_String e (JBool b) = (if b then ''true'' else ''false'')"
| "js_String e (JNum n) = Number_toString e n"
| "js_String e (JStr s) = s"
| "js_String e (JArr xs) =
     intercalate '','' (map (\<lambda>x. if x = JNull \<or> x = JUndefined then [] else js_String e x) xs)"
| "js_String e (JObj kvs) = ''[object Object]''"

text \<open>
  The state: the module variable \<open>tokens\<close> (\<open>null\<close> at start), the content of the
  credentials file at \<open>CREDS_PATH\<close> (\<open>None\<close>: the file does not exist), and the HTTP
  calls issued so far, oldest first. Reads and writes of the file succeed.
\<close>

record world =
  tokens :: jsval
  disk :: "string option"
  trace :: "request list"

text \<open>
  What the program throws. The messages of \<open>index.ts\<close>:
  \<open>RefreshUnavailable\<close> "No refresh_token available; re-authentication required.",
  \<open>RefreshFailed\<close> "Token refresh failed: <status> - <text>",
  \<open>NotAuthenticated\<close> "Not authenticated. Run auth first.",
  \<open>RemoteApiError\<close> "QuickBooks API error: <status> - <text>",
  \<open>UnauthorizedAfterRefresh\<close> "Unauthorized after token refresh.",
  \<open>CouldNotFetchCustomer\<close> "Could not fetch existing customer or SyncToken.",
  \<open>CouldNotFetchAccount\<close> "Could not fetch existing account or SyncToken.",
  \<open>NoCode\<close> "No code"; the others are the runtime's own.
\<close>

datatype error =
    RefreshUnavailable
  | RefreshFailed nat string
  | NotAuthenticated
  | RemoteApiError nat string
  | UnauthorizedAfterRefresh
  | CouldNotFetchCustomer
  | CouldNotFetchAccount
  | NoCode
  | SyntaxError
  | TypeError
  | FetchError string

definition fetch :: "env \<Rightarrow> request \<Rightarrow> world \<Rightarrow> fetch_result \<times> world" where
  "fetch e rq w = (remote e (trace w) rq, w\<lparr>trace := trace w @ [rq]\<rparr>)"

section \<open>Token store\<close>

definition saveTokens :: "env \<Rightarrow> jsval \<Rightarrow> world \<Rightarrow> world" where
  "saveTokens e newTokens w = w\<lparr>disk := Some (JSON_stringify_pretty e newTokens)\<rparr>"

definition loadTokens :: "env \<Rightarrow> world \<Rightarrow> (error + unit) \<times> world" where
  "loadTokens e w =
     (case disk w of
        None \<Rightarrow> (Inr (), w)
      | Some content \<Rightarrow>
          (case JSON_parse e content of
             None \<Rightarrow> (Inl SyntaxError, w)
           | Some v \<Rightarrow> (Inr (), w\<lparr>tokens := v\<rparr>)))"

section \<open>OAuth2 helpers\<close>

definition TOKEN_ENDPOINT :: string where
  "TOKEN_ENDPOINT = ''https://oauth.platform.intuit.com/oauth2/v1/tokens/bearer''"

definition REDIRECT_URI :: string where
  "REDIRECT_URI = ''http://localhost:3000/callback''"

definition basic_auth :: "env \<Rightarrow> string" where
  "basic_auth e = ''Basic '' @ base64 e (CLIENT_ID e @ '':'' @ CLIENT_SECRET e)"

text \<open>The call that \<open>refreshTokens\<close> sends to the token endpoint.\<close>

definition refresh_request :: "env \<Rightarrow> world \<Rightarrow> request" where
  "refresh_request e w =
     \<lparr>req_url = TOKEN_ENDPOINT,
      req_method = ''POST'',
      req_headers =
        [(''Authorization'', basic_auth e),
         (''Content-Type'', ''application/x-www-form-urlencoded'')],
      req_body =
        FormBody
          [(''grant_type'', ''refresh_token''),
           (''refresh_token'', js_String e (js_get (tokens w) ''refresh_token''))]\<rparr>"

definition refreshTokens :: "env \<Rightarrow> world \<Rightarrow> (error + unit) \<times> world" where
  "refreshTokens e w =
     (if \<not> truthy (js_opt_get (tokens w) ''refresh_token'') then (Inl RefreshUnavailable, w)
      else
        (case fetch e (refresh_request e w) w of
           (Rejected msg, w1) \<Rightarrow> (Inl (FetchError msg), w1)
         | (Response status text, w1) \<Rightarrow>
             if \<not> ok status then (Inl (RefreshFailed status text), w1)
             else
               (case JSON_parse e text of
                  None \<Rightarrow> (Inl SyntaxError, w1)
                | Some data \<Rightarrow>
                    let merged =
                          JObj (spread (spread [] (nullish_or (tokens w1) (JObj [])))
                                  (nullish_or data (JObj [])))
                    in (Inr (), saveTokens e merged (w1\<lparr>tokens := merged\<rparr>)))))"

section \<open>QuickBooks API helpers\<close>

definition QB_BASE :: string where
  "QB_BASE = ''https://sandbox-quickbooks.api.intuit.com/v3/company''"

definition MINOR_VERSION :: nat where
  "MINOR_VERSION = 75"

text \<open>The options of a call; \<open>http_method\<close> is the field \<open>method\<close>.\<close>

record QbOptions =
  http_method :: "string option"
  body :: jsval
  headers :: "(string \<times> string) list option"

definition baseUrl :: "env \<Rightarrow> string \<Rightarrow> string" where
  "baseUrl e endpoint = QB_BASE @ ''/'' @ REALM_ID e @ ''/'' @ endpoint"

definition qb_url :: "env \<Rightarrow> string \<Rightarrow> string" where
  "qb_url e endpoint =
     baseUrl e endpoint @
       (if CHR ''?'' \<in> set (baseUrl e endpoint) then ''&minorversion='' @ decimal MINOR_VERSION
        else ''?minorversion='' @ decimal MINOR_VERSION)"

text \<open>The call that \<open>doFetch\<close> sends, built from the tokens of the moment.\<close>

definition api_request :: "env \<Rightarrow> string \<Rightarrow> QbOptions \<Rightarrow> world \<Rightarrow> request" where
  "api_request e u options w =
     \<lparr>req_url = u,
      req_method = (case http_method options of None \<Rightarrow> ''GET'' | Some m \<Rightarrow> m),
      req_headers =
        assign_props
          (assign_props
             [(''Authorization'', ''Bearer '' @ js_String e (js_get (tokens w) ''access_token'')),
              (''Accept'', ''application/json'')]
             (if truthy (body options) then [(''Content-Type'', ''application/json'')] else []))
          (case headers options of None \<Rightarrow> [] | Some hs \<Rightarrow> AList.clearjunk hs),
      req_body =
        (if truthy (body options) then TextBody (JSON_stringify e (body options)) else NoBody)\<rparr>"

definition doFetch :: "env \<Rightarrow> string \<Rightarrow> QbOptions \<Rightarrow> world \<Rightarrow> (error + jsval) \<times> world" where
  "doFetch e u options w =
     (if nullish (tokens w) then (Inl TypeError, w)
      else
        (case fetch e (api_request e u options w) w of
           (Rejected msg, w1) \<Rightarrow> (Inl (FetchError msg), w1)
         | (Response status text, w1) \<Rightarrow>
             if \<not> ok status then
               (if status = 401 then
                  (Inr (JObj [(''needRefresh'', JBool True), (''text'', JStr text)]), w1)
                else (Inl (RemoteApiError status text), w1))
             else
               (case JSON_parse e (if text = [] then ''{}'' else text) of
                  None \<Rightarrow> (Inl SyntaxError, w1)
                | Some v \<Rightarrow> (Inr v, w1))))"

definition qbRequest :: "env \<Rightarrow> string \<Rightarrow> QbOptions \<Rightarrow> world \<Rightarrow> (error + jsval) \<times> world" where
  "qbRequest e endpoint options w =
     (if \<not> truthy (js_opt_get (tokens w) ''access_token'') then (Inl NotAuthenticated, w)
      else
        (case doFetch e (qb_url e endpoint) options w of
           (Inl err, w1) \<Rightarrow> (Inl err, w1)
         | (Inr result, w1) \<Rightarrow>
             if truthy (js_opt_get result ''needRefresh'') then
               (case refreshTokens e w1 of
                  (Inl err, w2) \<Rightarrow> (Inl err, w2)
                | (Inr u, w2) \<Rightarrow>
                    (case doFetch e (qb_url e endpoint) options w2 of
                       (Inl err, w3) \<Rightarrow> (Inl err, w3)
                     | (Inr result2, w3) \<Rightarrow>
                         if truthy (js_opt_get result2 ''needRefresh'')
                         then (Inl UnauthorizedAfterRefresh, w3)
                         else (Inr result2, w3)))
             else (Inr result, w1)))"

text \<open>Fetch the latest entity, for its \<open>SyncToken\<close>.\<close>

definition getCustomerRaw :: "env \<Rightarrow> string \<Rightarrow> world \<Rightarrow> (error + jsval) \<times> world" where
  "getCustomerRaw e ident w =
     (case qbRequest e (''customer/'' @ ident) \<lparr>http_method = Some ''GET'', body = JUndefined, headers = None\<rparr> w of
        (Inl err, w1) \<Rightarrow> (Inl err, w1)
      | (Inr data, w1) \<Rightarrow> (Inr (js_opt_get data ''Customer''), w1))"

definition getAccountRaw :: "env \<Rightarrow> string \<Rightarrow> world \<Rightarrow> (error + jsval) \<times> world" where
  "getAccountRaw e ident w =
     (case qbRequest e (''account/'' @ ident) \<lparr>http_method = Some ''GET'', body = JUndefined, headers = None\<rparr> w of
        (Inl err, w1) \<Rightarrow> (Inl err, w1)
      | (Inr data, w1) \<Rightarrow> (Inr (js_opt_get data ''Account''), w1))"

section \<open>Field mappers\<close>

text \<open>\<open>if (c) qbo.k = v;\<close>\<close>

definition assign_if :: "bool \<Rightarrow> string \<Rightarrow> jsval \<Rightarrow> props \<Rightarrow> props" where
  "assign_if c k v qbo = (if c then AList.update k v qbo else qbo)"

text \<open>
  The mappers are called on objects only: a schema-validated tool input, or the rest
  of one after destructuring.
\<close>

definition mapCustomerInputToQBO :: "props \<Rightarrow> props" where
  "mapCustomerInputToQBO input =
     (let qbo = [];
         qbo = assign_if (truthy (obj_get input ''displayName'')) ''DisplayName'' (obj_get input ''displayName'') qbo;
         qbo = assign_if (truthy (obj_get input ''companyName'')) ''CompanyName'' (obj_get input ''companyName'') qbo;
         qbo = assign_if (truthy (obj_get input ''title'')) ''Title'' (obj_get input ''title'') qbo;
         qbo = assign_if (truthy (obj_get input ''givenName'')) ''GivenName'' (obj_get input ''givenName'') qbo;
         qbo = assign_if (truthy (obj_get input ''middleName'')) ''MiddleName'' (obj_get input ''middleName'') qbo;
         qbo = assign_if (truthy (obj_get input ''familyName'')) ''FamilyName'' (obj_get input ''familyName'') qbo;
         qbo = assign_if (truthy (obj_get input ''suffix'')) ''Suffix'' (obj_get input ''suffix'') qbo;
         qbo = assign_if (js_typeof (obj_get input ''taxExempt'') = ''boolean'') ''Taxable'' (JBool (\<not> truthy (obj_get input ''taxExempt''))) qbo;
         qbo = assign_if (truthy (obj_get input ''notes'')) ''Notes'' (obj_get input ''notes'') qbo;
         qbo = assign_if (truthy (obj_get input ''primaryEmail'')) ''PrimaryEmailAddr'' (JObj [(''Address'', obj_get input ''primaryEmail'')]) qbo;
         qbo = assign_if (truthy (obj_get input ''primaryPhone'')) ''PrimaryPhone'' (JObj [(''FreeFormNumber'', obj_get input ''primaryPhone'')]) qbo;
         qbo = assign_if (truthy (obj_get input ''mobilePhone'')) ''Mobile'' (JObj [(''FreeFormNumber'', obj_get input ''mobilePhone'')]) qbo;
         qbo = assign_if (truthy (obj_get input ''fax'')) ''Fax'' (JObj [(''FreeFormNumber'', obj_get input ''fax'')]) qbo;
         qbo = assign_if (truthy (obj_get input ''billAddr'')) ''BillAddr''
           (JObj
              [(''Line1'', js_get (obj_get input ''billAddr'') ''line1''),
               (''Line2'', js_get (obj_get input ''billAddr'') ''line2''),
               (''City'', js_get (obj_get input ''billAddr'') ''city''),
               (''CountrySubDivisionCode'', js_get (obj_get input ''billAddr'') ''countrySubDivisionCode''),
               (''PostalCode'', js_get (obj_get input ''billAddr'') ''postalCode''),
               (''Country'', js_get (obj_get input ''billAddr'') ''country'')]) qbo;
         qbo = assign_if (truthy (obj_get input ''shipAddr'')) ''ShipAddr''
           (JObj
              [(''Line1'', js_get (obj_get input ''shipAddr'') ''line1''),
               (''Line2'', js_get (obj_get input ''shipAddr'') ''line2''),
               (''City'', js_get (obj_get input ''shipAddr'') ''city''),
               (''CountrySubDivisionCode'', js_get (obj_get input ''shipAddr'') ''countrySubDivisionCode''),
               (''PostalCode'', js_get (obj_get input ''shipAddr'') ''postalCode''),
               (''Country'', js_get (obj_get input ''shipAddr'') ''country'')]) qbo
      in qbo)"

definition mapAccountInputToQBO :: "props \<Rightarrow> props" where
  "mapAccountInputToQBO input =
     (let qbo = [];
         qbo = assign_if (truthy (obj_get input ''name'')) ''Name'' (obj_get input ''name'') qbo;
         qbo = assign_if (truthy (obj_get input ''fullyQualifiedName'')) ''FullyQualifiedName'' (obj_get input ''fullyQualifiedName'') qbo;
         qbo = assign_if (truthy (obj_get input ''accountType'')) ''AccountType'' (obj_get input ''accountType'') qbo;
         qbo = assign_if (truthy (obj_get input ''accountSubType'')) ''AccountSubType'' (obj_get input ''accountSubType'') qbo;
         qbo = assign_if (truthy (obj_get input ''description'')) ''Description'' (obj_get input ''description'') qbo;
         qbo = assign_if (truthy (obj_get input ''classification'')) ''Classification'' (obj_get input ''classification'') qbo;
         qbo = assign_if (truthy (obj_get input ''accountNumber'')) ''AcctNum'' (obj_get input ''accountNumber'') qbo;
         qbo = assign_if (js_typeof (obj_get input ''taxCodeRef'') = ''string'') ''TaxCodeRef'' (JObj [(''value'', obj_get input ''taxCodeRef'')]) qbo;
         qbo = assign_if (truthy (obj_get input ''currencyRef'')) ''CurrencyRef'' (JObj [(''value'', obj_get input ''currencyRef'')]) qbo;
         qbo = assign_if (js_typeof (obj_get input ''subAccount'') = ''boolean'') ''SubAccount'' (obj_get input ''subAccount'') qbo;
         qbo = assign_if (truthy (obj_get input ''parentRef'')) ''ParentRef'' (JObj [(''value'', obj_get input ''parentRef'')]) qbo;
         qbo = assign_if (js_typeof (obj_get input ''currentBalance'') = ''number'') ''CurrentBalance'' (obj_get input ''currentBalance'') qbo;
         qbo = assign_if (js_typeof (obj_get input ''active'') = ''boolean'') ''Active'' (obj_get input ''active'') qbo
      in qbo)"

text \<open>
  The text field_map of the tool schemas that the mappers gate on truthiness
  (\<open>if (input.f) qbo.F = ...\<close>), each with the property it is written to.
  \<open>taxCodeRef\<close> is not among them: it is gated on \<open>typeof input.taxCodeRef === "string"\<close>.
\<close>

definition customer_text_fields :: "(string \<times> string) list" where
  "customer_text_fields =
     [(''displayName'', ''DisplayName''), (''companyName'', ''CompanyName''),
      (''title'', ''Title''), (''givenName'', ''GivenName''), (''middleName'', ''MiddleName''),
      (''familyName'', ''FamilyName''), (''suffix'', ''Suffix''), (''notes'', ''Notes''),
      (''primaryEmail'', ''PrimaryEmailAddr''), (''primaryPhone'', ''PrimaryPhone''),
      (''mobilePhone'', ''Mobile''), (''fax'', ''Fax'')]"

definition account_text_fields :: "(string \<times> string) list" where
  "account_text_fields =
     [(''name'', ''Name''), (''fullyQualifiedName'', ''FullyQualifiedName''),
      (''accountType'', ''AccountType''), (''accountSubType'', ''AccountSubType''),
      (''description'', ''Description''), (''classification'', ''Classification''),
      (''accountNumber'', ''AcctNum''), (''currencyRef'', ''CurrencyRef''),
      (''parentRef'', ''ParentRef'')]"

section \<open>The field mappers on a store of objects\<close>

text \<open>
  JavaScript objects are held by reference: the mappers receive the reference of the
  caller's object and return the reference of the object they build. To state which
  objects a mapper writes, the mappers are given a second time with their objects in
  a store, a list of objects addressed by position. The values of properties stay in
  line, so \<open>input.billAddr\<close> is read as a value: the mappers read properties of the
  address and have no assignment to one.
\<close>

type_synonym store = "props list"

text \<open>\<open>const qbo: any = {};\<close>\<close>

definition new_object :: "store \<Rightarrow> nat \<times> store" where
  "new_object st = (length st, st @ [[]])"

text \<open>
  \<open>if (c) qbo.k = v;\<close> where \<open>c\<close> and \<open>v\<close> read the object at \<open>input_ref\<close> and the
  assignment writes the object at \<open>qbo_ref\<close>.
\<close>

definition store_assign_if ::
  "nat \<Rightarrow> nat \<Rightarrow> (props \<Rightarrow> bool) \<Rightarrow> string \<Rightarrow> (props \<Rightarrow> jsval) \<Rightarrow> store \<Rightarrow> store" where
  "store_assign_if qbo_ref input_ref c k v st =
     (if c (st ! input_ref)
      then st[qbo_ref := AList.update k (v (st ! input_ref)) (st ! qbo_ref)]
      else st)"

definition mapCustomerInputToQBO_store :: "nat \<Rightarrow> store \<Rightarrow> nat \<times> store" where
  "mapCustomerInputToQBO_store input_ref st =
     (let (qbo_ref, st) = new_object st;
         st = store_assign_if qbo_ref input_ref (\<lambda>input. truthy (obj_get input ''displayName'')) ''DisplayName''
           (\<lambda>input. obj_get input ''displayName'') st;
         st = store_assign_if qbo_ref input_ref (\<lambda>input. truthy (obj_get input ''companyName'')) ''CompanyName''
           (\<lambda>input. obj_get input ''companyName'') st;
         st = store_assign_if qbo_ref input_ref (\<lambda>input. truthy (obj_get input ''title'')) ''Title''
           (\<lambda>input. obj_get input ''title'') st;
         st = store_assign_if qbo_ref input_ref (\<lambda>input. truthy (obj_get input ''givenName'')) ''GivenName''
           (\<lambda>input. obj_get input ''givenName'') st;
         st = store_assign_if qbo_ref input_ref (\<lambda>input. truthy (obj_get input ''middleName'')) ''MiddleName''
           (\<lambda>input. obj_get input ''middleName'') st;
         st = store_assign_if qbo_ref input_ref (\<lambda>input. truthy (obj_get input ''familyName'')) ''FamilyName''
           (\<lambda>input. obj_get input ''familyName'') st;
         st = store_assign_if qbo_ref input_ref (\<lambda>input. truthy (obj_get input ''suffix'')) ''Suffix''
           (\<lambda>input. obj_get input ''suffix'') st;
         st = store_assign_if qbo_ref input_ref (\<lambda>input. js_typeof (obj_get input ''taxExempt'') = ''boolean'') ''Taxable''
           (\<lambda>input. JBool (\<not> truthy (obj_get input ''taxExempt''))) st;
         st = store_assign_if qbo_ref input_ref (\<lambda>input. truthy (obj_get input ''notes'')) ''Notes''
           (\<lambda>input. obj_get input ''notes'') st;
         st = store_assign_if qbo_ref input_ref (\<lambda>input. truthy (obj_get input ''primaryEmail'')) ''PrimaryEmailAddr''
           (\<lambda>input. JObj [(''Address'', obj_get input ''primaryEmail'')]) st;
         st = store_assign_if qbo_ref input_ref (\<lambda>input. truthy (obj_get input ''primaryPhone'')) ''PrimaryPhone''
           (\<lambda>input. JObj [(''FreeFormNumber'', obj_get input ''primaryPhone'')]) st;
         st = store_assign_if qbo_ref input_ref (\<lambda>input. truthy (obj_get input ''mobilePhone'')) ''Mobile''
           (\<lambda>input. JObj [(''FreeFormNumber'', obj_get input ''mobilePhone'')]) st;
         st = store_assign_if qbo_ref input_ref (\<lambda>input. truthy (obj_get input ''fax'')) ''Fax''
           (\<lambda>input. JObj [(''FreeFormNumber'', obj_get input ''fax'')]) st;
         st = store_assign_if qbo_ref input_ref (\<lambda>input. truthy (obj_get input ''billAddr'')) ''BillAddr''
           (\<lambda>input. JObj
              [(''Line1'', js_get (obj_get input ''billAddr'') ''line1''),
              (''Line2'', js_get (obj_get input ''billAddr'') ''line2''),
              (''City'', js_get (obj_get input ''billAddr'') ''city''),
              (''CountrySubDivisionCode'', js_get (obj_get input ''billAddr'') ''countrySubDivisionCode''),
              (''PostalCode'', js_get (obj_get input ''billAddr'') ''postalCode''),
              (''Country'', js_get (obj_get input ''billAddr'') ''country'')]) st;
         st = store_assign_if qbo_ref input_ref (\<lambda>input. truthy (obj_get input ''shipAddr'')) ''ShipAddr''
           (\<lambda>input. JObj
              [(''Line1'', js_get (obj_get input ''shipAddr'') ''line1''),
              (''Line2'', js_get (obj_get input ''shipAddr'') ''line2''),
              (''City'', js_get (obj_get input ''shipAddr'') ''city''),
              (''CountrySubDivisionCode'', js_get (obj_get input ''shipAddr'') ''countrySubDivisionCode''),
              (''PostalCode'', js_get (obj_get input ''shipAddr'') ''postalCode''),
              (''Country'', js_get (obj_get input ''shipAddr'') ''country'')]) st
      in (qbo_ref, st))"

definition mapAccountInputToQBO_store :: "nat \<Rightarrow> store \<Rightarrow> nat \<times> store" where
  "mapAccountInputToQBO_store input_ref st =
     (let (qbo_ref, st) = new_object st;
         st = store_assign_if qbo_ref input_ref (\<lambda>input. truthy (obj_get input ''name'')) ''Name''
           (\<lambda>input. obj_get input ''name'') st;
         st = store_assign_if qbo_ref input_ref (\<lambda>input. truthy (obj_get input ''fullyQualifiedName'')) ''FullyQualifiedName''
           (\<lambda>input. obj_get input ''fullyQualifiedName'') st;
         st = store_assign_if qbo_ref input_ref (\<lambda>input. truthy (obj_get input ''accountType'')) ''AccountType''
           (\<lambda>input. obj_get input ''accountType'') st;
         st = store_assign_if qbo_ref input_ref (\<lambda>input. truthy (obj_get input ''accountSubType'')) ''AccountSubType''
           (\<lambda>input. obj_get input ''accountSubType'') st;
         st = store_assign_if qbo_ref input_ref (\<lambda>input. truthy (obj_get input ''description'')) ''Description''
           (\<lambda>input. obj_get input ''description'') st;
         st = store_assign_if qbo_ref input_ref (\<lambda>input. truthy (obj_get input ''classification'')) ''Classification''
           (\<lambda>input. obj_get input ''classification'') st;
         st = store_assign_if qbo_ref input_ref (\<lambda>input. truthy (obj_get input ''accountNumber'')) ''AcctNum''
           (\<lambda>input. obj_get input ''accountNumber'') st;
         st = store_assign_if qbo_ref input_ref (\<lambda>input. js_typeof (obj_get input ''taxCodeRef'') = ''string'') ''TaxCodeRef''
           (\<lambda>input. JObj [(''value'', obj_get input ''taxCodeRef'')]) st;
         st = store_assign_if qbo_ref input_ref (\<lambda>input. truthy (obj_get input ''currencyRef'')) ''CurrencyRef''
           (\<lambda>input. JObj [(''value'', obj_get input ''currencyRef'')]) st;
         st = store_assign_if qbo_ref input_ref (\<lambda>input. js_typeof (obj_get input ''subAccount'') = ''boolean'') ''SubAccount''
           (\<lambda>input. obj_get input ''subAccount'') st;
         st = store_assign_if qbo_ref input_ref (\<lambda>input. truthy (obj_get input ''parentRef'')) ''ParentRef''
           (\<lambda>input. JObj [(''value'', obj_get input ''parentRef'')]) st;
         st = store_assign_if qbo_ref input_ref (\<lambda>input. js_typeof (obj_get input ''currentBalance'') = ''number'') ''CurrentBalance''
           (\<lambda>input. obj_get input ''currentBalance'') st;
         st = store_assign_if qbo_ref input_ref (\<lambda>input. js_typeof (obj_get input ''active'') = ''boolean'') ''Active''
           (\<lambda>input. obj_get input ''active'') st
      in (qbo_ref, st))"

section \<open>Tool handlers that update an entity\<close>

text \<open>\<open>const {a, b, ...patch} = input\<close>: the properties of \<open>input\<close> other than those named.\<close>

definition rest_props :: "string list \<Rightarrow> props \<Rightarrow> props" where
  "rest_props named input = filter (\<lambda>(k, v). k \<notin> set named) (AList.clearjunk input)"

text \<open>
  The write body of \<open>update_customer\<close> and \<open>update_account\<close>:
  \<open>{Id: existing.Id, SyncToken: existing.SyncToken, ...(sparse ? {sparse: true} : {}), ...mapped}\<close>.
\<close>

definition update_body :: "jsval \<Rightarrow> jsval \<Rightarrow> props \<Rightarrow> jsval" where
  "update_body existing sparse mapped =
     JObj (spread
             (spread
                [(''Id'', js_get existing ''Id''), (''SyncToken'', js_get existing ''SyncToken'')]
                (if truthy sparse then JObj [(''sparse'', JBool True)] else JObj []))
             (JObj mapped))"

text \<open>
  The write body of \<open>set_customer_active\<close> and \<open>set_account_active\<close>:
  \<open>{Id: existing.Id, SyncToken: existing.SyncToken, sparse: true, Active: active}\<close>.
\<close>

definition active_body :: "jsval \<Rightarrow> jsval \<Rightarrow> jsval" where
  "active_body existing active =
     JObj [(''Id'', js_get existing ''Id''), (''SyncToken'', js_get existing ''SyncToken''),
           (''sparse'', JBool True), (''Active'', active)]"

definition update_customer :: "env \<Rightarrow> props \<Rightarrow> world \<Rightarrow> (error + string) \<times> world" where
  "update_customer e input w =
     (let customerId = obj_get input ''customerId'';
          sparse = (if obj_get input ''sparse'' = JUndefined then JBool True
                    else obj_get input ''sparse'');
          patch = rest_props [''customerId'', ''sparse''] input
      in case getCustomerRaw e (js_String e customerId) w of
           (Inl err, w1) \<Rightarrow> (Inl err, w1)
         | (Inr existing, w1) \<Rightarrow>
             if \<not> truthy (js_opt_get existing ''Id'') \<or> js_get existing ''SyncToken'' = JUndefined
             then (Inl CouldNotFetchCustomer, w1)
             else
               (case qbRequest e ''customer?operation=update''
                       \<lparr>http_method = Some ''POST'',
                        body = update_body existing sparse (mapCustomerInputToQBO patch),
                        headers = None\<rparr> w1 of
                  (Inl err, w2) \<Rightarrow> (Inl err, w2)
                | (Inr data, w2) \<Rightarrow>
                    (Inr (JSON_stringify_pretty e (nullish_or (js_opt_get data ''Customer'') data)),
                     w2)))"

definition set_customer_active :: "env \<Rightarrow> props \<Rightarrow> world \<Rightarrow> (error + string) \<times> world" where
  "set_customer_active e input w =
     (let customerId = obj_get input ''customerId'';
          active = obj_get input ''active''
      in case getCustomerRaw e (js_String e customerId) w of
           (Inl err, w1) \<Rightarrow> (Inl err, w1)
         | (Inr existing, w1) \<Rightarrow>
             if \<not> truthy (js_opt_get existing ''Id'') \<or> js_get existing ''SyncToken'' = JUndefined
             then (Inl CouldNotFetchCustomer, w1)
             else
               (case qbRequest e ''customer?operation=update''
                       \<lparr>http_method = Some ''POST'',
                        body = active_body existing active,
                        headers = None\<rparr> w1 of
                  (Inl err, w2) \<Rightarrow> (Inl err, w2)
                | (Inr data, w2) \<Rightarrow>
                    (Inr (JSON_stringify_pretty e (nullish_or (js_opt_get data ''Customer'') data)),
                     w2)))"

definition update_account :: "env \<Rightarrow> props \<Rightarrow> world \<Rightarrow> (error + string) \<times> world" where
  "update_account e input w =
     (let accountId = obj_get input ''accountId'';
          sparse = (if obj_get input ''sparse'' = JUndefined then JBool True
                    else obj_get input ''sparse'');
          patch = rest_props [''accountId'', ''sparse''] input
      in case getAccountRaw e (js_String e accountId) w of
           (Inl err, w1) \<Rightarrow> (Inl err, w1)
         | (Inr existing, w1) \<Rightarrow>
             if \<not> truthy (js_opt_get existing ''Id'') \<or> js_get existing ''SyncToken'' = JUndefined
             then (Inl CouldNotFetchAccount, w1)
             else
               (case qbRequest e ''account?operation=update''
                       \<lparr>http_method = Some ''POST'',
                        body = update_body existing sparse (mapAccountInputToQBO patch),
                        headers = None\<rparr> w1 of
                  (Inl err, w2) \<Rightarrow> (Inl err, w2)
                | (Inr data, w2) \<Rightarrow>
                    (Inr (JSON_stringify_pretty e (nullish_or (js_opt_get data ''Account'') data)),
                     w2)))"

definition set_account_active :: "env \<Rightarrow> props \<Rightarrow> world \<Rightarrow> (error + string) \<times> world" where
  "set_account_active e input w =
     (let accountId = obj_get input ''accountId'';
          active = obj_get input ''active''
      in case getAccountRaw e (js_String e accountId) w of
           (Inl err, w1) \<Rightarrow> (Inl err, w1)
         | (Inr existing, w1) \<Rightarrow>
             if \<not> truthy (js_opt_get existing ''Id'') \<or> js_get existing ''SyncToken'' = JUndefined
             then (Inl CouldNotFetchAccount, w1)
             else
               (case qbRequest e ''account?operation=update''
                       \<lparr>http_method = Some ''POST'',
                        body = active_body existing active,
                        headers = None\<rparr> w1 of
                  (Inl err, w2) \<Rightarrow> (Inl err, w2)
                | (Inr data, w2) \<Rightarrow>
                    (Inr (JSON_stringify_pretty e (nullish_or (js_opt_get data ''Account'') data)),
                     w2)))"

subsection \<open>The calls of an update\<close>

text \<open>
  The options of the two calls of an update: the fetch is
  \<open>qbRequest(`customer/${id}`, { method: "GET" })\<close> and the write is
  \<open>qbRequest("customer?operation=update", { method: "POST", body })\<close>.
\<close>

abbreviation GET_options :: QbOptions where
  "GET_options \<equiv> \<lparr>http_method = Some ''GET'', body = JUndefined, headers = None\<rparr>"

abbreviation POST_options :: "jsval \<Rightarrow> QbOptions" where
  "POST_options write \<equiv> \<lparr>http_method = Some ''POST'', body = write, headers = None\<rparr>"


text \<open>
  A request is a call of the fetch of \<open>endpoint\<close> when it goes to the token endpoint or
  is a GET of \<open>endpoint\<close> with no body; it is a call of the write of \<open>write\<close> to
  \<open>endpoint\<close> when it goes to the token endpoint or is a POST to \<open>endpoint\<close> whose body is
  the text of \<open>write\<close>.
\<close>

abbreviation fetch_call :: "env \<Rightarrow> string \<Rightarrow> request \<Rightarrow> bool" where
  "fetch_call e endpoint rq \<equiv>
     req_url rq = TOKEN_ENDPOINT
     \<or> (req_url rq = qb_url e endpoint \<and> req_method rq = ''GET'' \<and> req_body rq = NoBody)"

abbreviation write_call :: "env \<Rightarrow> string \<Rightarrow> jsval \<Rightarrow> request \<Rightarrow> bool" where
  "write_call e endpoint write rq \<equiv>
     req_url rq = TOKEN_ENDPOINT
     \<or> (req_url rq = qb_url e endpoint \<and> req_method rq = ''POST''
        \<and> req_body rq = TextBody (JSON_stringify e write))"

section \<open>Interactive authorization: the \<open>/callback\<close> handler\<close>

definition code_request :: "env \<Rightarrow> jsval \<Rightarrow> request" where
  "code_request e code =
     \<lparr>req_url = TOKEN_ENDPOINT,
      req_method = ''POST'',
      req_headers =
        [(''Authorization'', basic_auth e),
         (''Content-Type'', ''application/x-www-form-urlencoded'')],
      req_body =
        TextBody
          (''grant_type=authorization_code&code='' @ encodeURIComponent e (js_String e code) @
           ''&redirect_uri='' @ encodeURIComponent e REDIRECT_URI)\<rparr>"

text \<open>
  The handler of \<open>GET /callback\<close> inside \<open>authenticate\<close>, on the \<open>code\<close> of the
  query. It returns what it sends to the browser (if anything) and how it settles the
  promise of \<open>authenticate\<close>: \<open>Inr ()\<close> is \<open>resolve()\<close>, \<open>Inl\<close> is \<open>reject\<close>.
\<close>

definition authenticate_callback ::
  "env \<Rightarrow> jsval \<Rightarrow> world \<Rightarrow> (string option \<times> (error + unit)) \<times> world" where
  "authenticate_callback e code w =
     (if \<not> truthy code then ((Some ''No code provided'', Inl NoCode), w)
      else
        (case fetch e (code_request e code) w of
           (Rejected msg, w1) \<Rightarrow> ((None, Inl (FetchError msg)), w1)
         | (Response status text, w1) \<Rightarrow>
             (case JSON_parse e text of
                None \<Rightarrow> ((None, Inl SyntaxError), w1)
              | Some data \<Rightarrow>
                  ((Some ''Authentication successful! You can close this window.'', Inr ()),
                   saveTokens e data (w1\<lparr>tokens := data\<rparr>)))))"

section \<open>A sample runtime and sample remotes\<close>

text \<open>
  Concrete values for the worked examples below: a serializer, a parser that knows the
  few texts the sample remotes send, and an environment around a given remote.
\<close>

fun sample_stringify :: "jsval \<Rightarrow> string" where
  "sample_stringify JUndefined = ''undefined''"
| "sample_stringify JNull = ''null''"
| "sample_stringify (JBool b) = (if b then ''true'' else ''false'')"
| "sample_stringify (JNum n) = decimal (nat \<lfloor>n\<rfloor>)"
| "sample_stringify (JStr s) = CHR 0x22 # s @ [CHR 0x22]"
| "sample_stringify (JArr xs) = ''['' @ intercalate '','' (map sample_stringify xs) @ '']''"
| "sample_stringify (JObj kvs) =
     ''{'' @ intercalate '',''
              (map (\<lambda>(k, v). CHR 0x22 # k @ [CHR 0x22] @ '':'' @ sample_stringify v) kvs) @ ''}''"

definition rotated_tokens_text :: string where
  \<open>rotated_tokens_text = ''{"access_token":"new","refresh_token":"r2"}''\<close>

definition customer_42_text :: string where
  \<open>customer_42_text = ''{"Customer":{"Id":"42","SyncToken":"3"}}''\<close>

definition account_42_text :: string where
  \<open>account_42_text = ''{"Account":{"Id":"42","SyncToken":"3"}}''\<close>

definition invalid_grant_text :: string where
  \<open>invalid_grant_text = ''{"error":"invalid_grant"}''\<close>

definition sample_parse :: "string \<Rightarrow> jsval option" where
  "sample_parse =
     map_of
       [(''{}'', JObj []),
        (rotated_tokens_text,
         JObj [(''access_token'', JStr ''new''), (''refresh_token'', JStr ''r2'')]),
        (customer_42_text,
         JObj [(''Customer'', JObj [(''Id'', JStr ''42''), (''SyncToken'', JStr ''3'')])]),
        (account_42_text,
         JObj [(''Account'', JObj [(''Id'', JStr ''42''), (''SyncToken'', JStr ''3'')])]),
        (invalid_grant_text, JObj [(''error'', JStr ''invalid_grant'')])]"

definition sample_env :: "(request list \<Rightarrow> request \<Rightarrow> fetch_result) \<Rightarrow> env" where
  "sample_env r =
     \<lparr>JSON_parse = sample_parse,
      JSON_stringify = sample_stringify,
      JSON_stringify_pretty = sample_stringify,
      Number_toString = (\<lambda>n. decimal (nat \<lfloor>n\<rfloor>)),
      encodeURIComponent = (\<lambda>s. s),
      base64 = (\<lambda>s. s),
      CLIENT_ID = ''client'',
      CLIENT_SECRET = ''secret'',
      REALM_ID = ''123'',
      remote = r\<rparr>"

text \<open>
  A remote that accepts only the access token \<open>new\<close>, knows customer 42 and account
  42, and answers the token endpoint and a write as given.
\<close>

definition sample_remote ::
  "fetch_result \<Rightarrow> fetch_result \<Rightarrow> request list \<Rightarrow> request \<Rightarrow> fetch_result" where
  "sample_remote token_answer write_answer sent rq =
     (if req_url rq = TOKEN_ENDPOINT then token_answer
      else if map_of (req_headers rq) ''Authorization'' \<noteq> Some ''Bearer new''
      then Response 401 ''token expired''
      else if req_method rq = ''POST'' then write_answer
      else if req_url rq =
                ''https://sandbox-quickbooks.api.intuit.com/v3/company/123/customer/42?minorversion=75''
      then Response 200 customer_42_text
      else if req_url rq =
                ''https://sandbox-quickbooks.api.intuit.com/v3/company/123/account/42?minorversion=75''
      then Response 200 account_42_text
      else Response 200 ''{}'')"

text \<open>The token endpoint rotates the tokens; writes succeed.\<close>

definition expired_remote :: "request list \<Rightarrow> request \<Rightarrow> fetch_result" where
  "expired_remote = sample_remote (Response 200 rotated_tokens_text) (Response 200 ''{}'')"

text \<open>Writes meet a version conflict.\<close>

definition conflict_remote :: "request list \<Rightarrow> request \<Rightarrow> fetch_result" where
  "conflict_remote =
     sample_remote (Response 200 rotated_tokens_text) (Response 400 ''Stale Object Error'')"

text \<open>The token endpoint rejects every grant.\<close>

definition denied_remote :: "request list \<Rightarrow> request \<Rightarrow> fetch_result" where
  "denied_remote = sample_remote (Response 400 invalid_grant_text) (Response 200 ''{}'')"

text \<open>The token endpoint answers 200 with an empty object: the access token stays as it was.\<close>

definition locked_remote :: "request list \<Rightarrow> request \<Rightarrow> fetch_result" where
  "locked_remote = sample_remote (Response 200 ''{}'') (Response 200 ''{}'')"


definition start_world :: world where
  "start_world = \<lparr>tokens = JNull, disk = None, trace = []\<rparr>"

definition signed_in :: "string \<Rightarrow> world" where
  "signed_in token =
     \<lparr>tokens = JObj [(''access_token'', JStr token), (''refresh_token'', JStr ''r1''),
                      (''token_type'', JStr ''bearer'')],
      disk = None, trace = []\<rparr>"

definition access_only :: world where
  "access_only = \<lparr>tokens = JObj [(''access_token'', JStr ''old'')], disk = None, trace = []\<rparr>"

text \<open>The world after \<open>signed_in ''old''\<close> has refreshed against a rotating token endpoint.\<close>

definition refreshed :: "request list \<Rightarrow> world" where
  \<open>refreshed sent =
     \<lparr>tokens = JObj [(''access_token'', JStr ''new''), (''refresh_token'', JStr ''r2''),
                      (''token_type'', JStr ''bearer'')],
      disk = Some ''{"access_token":"new","refresh_token":"r2","token_type":"bearer"}'',
      trace = sent\<rparr>\<close>

definition no_options :: QbOptions where
  "no_options = \<lparr>http_method = None, body = JUndefined, headers = None\<rparr>"

definition ex42 :: jsval where
  "ex42 = JObj [(''Id'', JStr ''42''), (''SyncToken'', JStr ''3'')]"

text \<open>The write body of a deactivation of entity 42 at version 3.\<close>

definition deactivation_body :: jsval where
  "deactivation_body =
     JObj [(''Id'', JStr ''42''), (''SyncToken'', JStr ''3''), (''sparse'', JBool True),
           (''Active'', JBool False)]"

text \<open>The write of \<open>set_customer_active\<close> for customer 42, \<open>active = false\<close>.\<close>

definition deactivate_42 :: QbOptions where
  "deactivate_42 =
     \<lparr>http_method = Some ''POST'', body = active_body ex42 (JBool False), headers = None\<rparr>"

section \<open>Basic facts\<close>

lemma decimal_MINOR_VERSION: "decimal MINOR_VERSION = ''75''"
  unfolding MINOR_VERSION_def by code_simp

lemma qb_url_eq:
  "qb_url e endpoint =
     baseUrl e endpoint @
       (if CHR ''?'' \<in> set (baseUrl e endpoint) then ''&minorversion=75'' else ''?minorversion=75'')"
  by (simp add: qb_url_def decimal_MINOR_VERSION)

lemma truthy_opt_get_not_nullish: "truthy (js_opt_get v k) \<Longrightarrow> \<not> nullish v"
  by (auto simp: js_opt_get_def)

lemma doFetch_world:
  "\<not> nullish (tokens w) \<Longrightarrow>
   snd (doFetch e u options w) = w\<lparr>trace := trace w @ [api_request e u options w]\<rparr>"
  by (auto simp: doFetch_def fetch_def split: fetch_result.splits option.splits)

lemma doFetch_401:
  "\<not> nullish (tokens w) \<Longrightarrow> remote e (trace w) (api_request e u options w) = Response 401 text \<Longrightarrow>
   doFetch e u options w =
     (Inr (JObj [(''needRefresh'', JBool True), (''text'', JStr text)]),
      w\<lparr>trace := trace w @ [api_request e u options w]\<rparr>)"
  by (simp add: doFetch_def fetch_def ok_def)

lemma doFetch_error:
  "\<not> nullish (tokens w) \<Longrightarrow> remote e (trace w) (api_request e u options w) = Response status text \<Longrightarrow>
   \<not> ok status \<Longrightarrow> status \<noteq> 401 \<Longrightarrow>
   doFetch e u options w =
     (Inl (RemoteApiError status text), w\<lparr>trace := trace w @ [api_request e u options w]\<rparr>)"
  by (simp add: doFetch_def fetch_def)

lemma refreshTokens_trace:
  "trace (snd (refreshTokens e w)) = trace w \<or>
   trace (snd (refreshTokens e w)) = trace w @ [refresh_request e w]"
  by (auto simp: refreshTokens_def fetch_def saveTokens_def Let_def split: fetch_result.splits option.splits)

lemma needRefresh_truthy [simp]:
  "truthy (js_opt_get (JObj [(''needRefresh'', JBool True), (''text'', JStr text)]) ''needRefresh'')"
  by (simp add: js_opt_get_def nullish_def obj_get_def)

lemma api_request_url [simp]: "req_url (api_request e u options w) = u"
  by (simp add: api_request_def)

lemma refresh_request_url [simp]: "req_url (refresh_request e w) = TOKEN_ENDPOINT"
  by (simp add: refresh_request_def)

lemma refreshTokens_tokens:
  "refreshTokens e w = (Inr u, w2) \<Longrightarrow> \<exists>kvs. tokens w2 = JObj kvs"
  by (auto simp: refreshTokens_def fetch_def saveTokens_def Let_def
           split: if_splits fetch_result.splits option.splits)

lemma refreshTokens_ok_trace:
  "refreshTokens e w = (Inr u, w2) \<Longrightarrow> trace w2 = trace w @ [refresh_request e w]"
  by (auto simp: refreshTokens_def fetch_def saveTokens_def Let_def
           split: if_splits fetch_result.splits option.splits)

lemma refreshTokens_err_trace:
  "refreshTokens e w = (Inl err, w2) \<Longrightarrow>
   trace w2 = trace w \<or> trace w2 = trace w @ [refresh_request e w]"
  using refreshTokens_trace[of e w] by simp

lemma refresh_request_trace_irrelevant [simp]:
  "refresh_request e (w\<lparr>trace := t\<rparr>) = refresh_request e w"
  by (simp add: refresh_request_def)

subsection \<open>Spreads and fields\<close>

lemma decimal_nonempty: "decimal n \<noteq> []"
  by (subst decimal.simps) simp

lemma digit_inj:
  "a < 10 \<Longrightarrow> b < 10 \<Longrightarrow> (char_of (48 + a) :: char) = char_of (48 + b) \<Longrightarrow> a = (b::nat)"
proof -
  assume a: "a < 10" and b: "b < 10"
    and eq: "(char_of (48 + a) :: char) = char_of (48 + b)"
  from eq have "(48 + a) mod 256 = (48 + b) mod 256"
    by (simp add: char_of_eq_iff take_bit_eq_mod)
  with a b show "a = b" by simp
qed

lemma decimal_inj: "decimal m = decimal n \<Longrightarrow> m = n"
proof (induction m arbitrary: n rule: decimal.induct)
  case (1 m)
  show ?case
  proof (cases "m < 10")
    case small_m: True
    show ?thesis
    proof (cases "n < 10")
      case True
      with small_m "1.prems" show ?thesis
        by (simp add: decimal.simps[of m] decimal.simps[of n] digit_inj)
    next
      case False
      with small_m "1.prems" decimal_nonempty[of "n div 10"] show ?thesis
        by (simp add: decimal.simps[of m] decimal.simps[of n])
    qed
  next
    case big_m: False
    show ?thesis
    proof (cases "n < 10")
      case True
      with big_m "1.prems" decimal_nonempty[of "m div 10"] show ?thesis
        by (simp add: decimal.simps[of m] decimal.simps[of n])
    next
      case False
      with big_m "1.prems" have eq: "decimal (m div 10) = decimal (n div 10)"
        and last: "(char_of (48 + m mod 10) :: char) = char_of (48 + n mod 10)"
        by (simp_all add: decimal.simps[of m] decimal.simps[of n])
      from "1.IH"[OF big_m eq] have d: "m div 10 = n div 10" .
      from last have "m mod 10 = n mod 10" by (intro digit_inj) simp_all
      with d show ?thesis by (metis div_mult_mod_eq)
    qed
  qed
qed

lemma distinct_decimal_upt: "distinct (map decimal [0..<n])"
  by (simp add: distinct_map inj_on_def decimal_inj)

lemma distinct_own_props: "distinct (map fst (own_props v))"
proof (cases v)
  case (JArr xs)
  have "map fst (zip (map decimal [0..<length xs]) xs) = map decimal [0..<length xs]"
    by simp
  with JArr show ?thesis by (simp add: distinct_decimal_upt del: map_map)
next
  case (JStr s)
  have "map fst (zip (map decimal [0..<length s]) (map (\<lambda>c. JStr [c]) s)) = map decimal [0..<length s]"
    by simp
  with JStr show ?thesis by (simp add: distinct_decimal_upt del: map_map)
qed simp_all

lemma assign_props_map_of:
  "distinct (map fst src) \<Longrightarrow> map_of (assign_props target src) = map_of target ++ map_of src"
  unfolding assign_props_def
proof (induction src arbitrary: target)
  case Nil then show ?case by simp
next
  case (Cons p src)
  obtain k v where p: "p = (k, v)" by (cases p)
  from Cons.prems have k: "k \<notin> fst ` set src" and d: "distinct (map fst src)" by (auto simp: p)
  have none: "map_of src k = None" using k by (simp add: map_of_eq_None_iff)
  have "map_of (foldl (\<lambda>acc (k, v). AList.update k v acc) target (p # src))
      = map_of (AList.update k v target) ++ map_of src"
    using Cons.IH[OF d] by (simp add: p)
  also have "\<dots> = (map_of target)(k \<mapsto> v) ++ map_of src"
    by (simp only: update_conv')
  also have "\<dots> = map_of target ++ map_of (p # src)"
    using none by (auto simp: p fun_eq_iff map_add_def split: option.splits)
  finally show ?case .
qed

lemma map_of_spread: "map_of (spread target v) = map_of target ++ field_map v"
  by (simp add: spread_def field_map_def assign_props_map_of distinct_own_props)

lemma field_map_JObj [simp]: "field_map (JObj kvs) = map_of kvs"
  by (simp add: field_map_def map_of_clearjunk)

lemma field_map_nullish_or_empty: "field_map (nullish_or v (JObj [])) = field_map v"
  by (auto simp: nullish_or_def nullish_def field_map_def)

lemma refreshTokens_success:
  assumes rt: "truthy (js_opt_get (tokens w) ''refresh_token'')"
      and resp: "remote e (trace w) (refresh_request e w) = Response status text"
      and ok: "ok status"
      and parse: "JSON_parse e text = Some data"
  shows "\<exists>merged.
           refreshTokens e w =
             (Inr (), w\<lparr>tokens := JObj merged,
                        disk := Some (JSON_stringify_pretty e (JObj merged)),
                        trace := trace w @ [refresh_request e w]\<rparr>)
           \<and> map_of merged = field_map (tokens w) ++ field_map data"
proof -
  let ?merged = "spread (spread [] (nullish_or (tokens w) (JObj []))) (nullish_or data (JObj []))"
  have "refreshTokens e w =
          (Inr (), w\<lparr>tokens := JObj ?merged,
                     disk := Some (JSON_stringify_pretty e (JObj ?merged)),
                     trace := trace w @ [refresh_request e w]\<rparr>)"
    using rt resp ok parse
    by (simp add: refreshTokens_def fetch_def saveTokens_def Let_def)
  moreover have "map_of ?merged = field_map (tokens w) ++ field_map data"
    by (simp add: map_of_spread field_map_nullish_or_empty)
  ultimately show ?thesis by blast
qed

lemma qbRequest_after_401:
  assumes auth: "truthy (js_opt_get (tokens w) ''access_token'')"
      and first: "remote e (trace w) (api_request e (qb_url e endpoint) options w) = Response 401 text"
  shows "qbRequest e endpoint options w =
           (case refreshTokens e (w\<lparr>trace := trace w @ [api_request e (qb_url e endpoint) options w]\<rparr>) of
              (Inl err, w2) \<Rightarrow> (Inl err, w2)
            | (Inr u, w2) \<Rightarrow>
                (case doFetch e (qb_url e endpoint) options w2 of
                   (Inl err, w3) \<Rightarrow> (Inl err, w3)
                 | (Inr result2, w3) \<Rightarrow>
                     if truthy (js_opt_get result2 ''needRefresh'')
                     then (Inl UnauthorizedAfterRefresh, w3)
                     else (Inr result2, w3)))"
proof -
  have nn: "\<not> nullish (tokens w)" using auth by (rule truthy_opt_get_not_nullish)
  show ?thesis
    using auth by (simp add: qbRequest_def doFetch_401 [OF nn first])
qed

subsection \<open>The samples\<close>

lemmas sample_defs =
  sample_env_def signed_in_def access_only_def api_request_def refresh_request_def qb_url_eq
  baseUrl_def QB_BASE_def TOKEN_ENDPOINT_def basic_auth_def assign_props_def obj_get_def
  js_opt_get_def nullish_def nullish_or_def ok_def sample_remote_def sample_parse_def
  rotated_tokens_text_def customer_42_text_def account_42_text_def invalid_grant_text_def
  no_options_def deactivate_42_def active_body_def ex42_def

lemma signed_in_auth: "truthy (js_opt_get (tokens (signed_in t)) ''access_token'') = (t \<noteq> [])"
  by (simp add: signed_in_def js_opt_get_def nullish_def obj_get_def)

lemma signed_in_refreshable: "truthy (js_opt_get (tokens (signed_in t)) ''refresh_token'')"
  by (simp add: signed_in_def js_opt_get_def nullish_def obj_get_def)

lemma refresh_rotating:
  "remote e = sample_remote (Response 200 rotated_tokens_text) wr \<Longrightarrow> JSON_parse e = sample_parse \<Longrightarrow>
   JSON_stringify_pretty e = sample_stringify \<Longrightarrow>
   refreshTokens e (signed_in ''old''\<lparr>trace := sent\<rparr>)
     = (Inr (), refreshed (sent @ [refresh_request e (signed_in ''old'')]))"
  by (simp add: refreshTokens_def fetch_def saveTokens_def spread_def refreshed_def
        signed_in_def refresh_request_def sample_remote_def sample_parse_def
        rotated_tokens_text_def js_opt_get_def nullish_def nullish_or_def obj_get_def ok_def
        assign_props_def)

lemma sample_env_sel [simp]:
  "remote (sample_env r) = r" "JSON_parse (sample_env r) = sample_parse"
  "JSON_stringify_pretty (sample_env r) = sample_stringify"
  "JSON_stringify (sample_env r) = sample_stringify"
  by (simp_all add: sample_env_def)

lemma api_request_tokens:
  "tokens w2 = tokens w \<Longrightarrow> api_request e u options w2 = api_request e u options w"
  by (simp add: api_request_def)

subsection \<open>The calls of one run of the executor\<close>

lemma qbRequest_calls:
  "\<exists>reqs. trace (snd (qbRequest e endpoint options w)) = trace w @ reqs \<and>
     (\<forall>rq\<in>set reqs. rq = refresh_request e w \<or> (\<exists>w'. rq = api_request e (qb_url e endpoint) options w')) \<and>
     (truthy (js_opt_get (tokens w) ''access_token'') \<longrightarrow>
        (\<exists>rest. reqs = api_request e (qb_url e endpoint) options w # rest))"
proof (cases "truthy (js_opt_get (tokens w) ''access_token'')")
  case False
  then have "qbRequest e endpoint options w = (Inl NotAuthenticated, w)"
    by (simp add: qbRequest_def)
  with False show ?thesis by simp
next
  case auth: True
  let ?u = "qb_url e endpoint"
  let ?rq1 = "api_request e ?u options w"
  let ?w1 = "w\<lparr>trace := trace w @ [?rq1]\<rparr>"
  have nn: "\<not> nullish (tokens w)" using auth by (rule truthy_opt_get_not_nullish)
  obtain r1 where d1: "doFetch e ?u options w = (r1, ?w1)"
    using doFetch_world[OF nn, of e ?u options] by (cases "doFetch e ?u options w") auto
  show ?thesis
  proof (cases r1)
    case (Inl err)
    then have "trace (snd (qbRequest e endpoint options w)) = trace w @ [?rq1]"
      using auth d1 by (simp add: qbRequest_def)
    then show ?thesis by (intro exI[of _ "[?rq1]"]) auto
  next
    case (Inr result)
    show ?thesis
    proof (cases "truthy (js_opt_get result ''needRefresh'')")
      case False
      then have "trace (snd (qbRequest e endpoint options w)) = trace w @ [?rq1]"
        using auth d1 Inr by (simp add: qbRequest_def)
      then show ?thesis by (intro exI[of _ "[?rq1]"]) auto
    next
      case True
      obtain r2 w2 where rf: "refreshTokens e ?w1 = (r2, w2)" by (cases "refreshTokens e ?w1")
      show ?thesis
      proof (cases r2)
        case (Inl err)
        from refreshTokens_err_trace[OF rf[unfolded Inl]]
        have "trace w2 = trace w @ [?rq1] \<or> trace w2 = trace w @ [?rq1, refresh_request e w]"
          by simp
        moreover have "snd (qbRequest e endpoint options w) = w2"
          using auth d1 \<open>r1 = Inr result\<close> True rf Inl by (simp add: qbRequest_def)
        ultimately show ?thesis
          by (elim disjE; intro exI[of _ "[?rq1]"] exI[of _ "[?rq1, refresh_request e w]"]) auto
      next
        case (Inr u2)
        from refreshTokens_ok_trace[OF rf[unfolded Inr]]
        have t2: "trace w2 = trace w @ [?rq1, refresh_request e w]" by simp
        from refreshTokens_tokens[OF rf[unfolded Inr]]
        have nn2: "\<not> nullish (tokens w2)" by (auto simp: nullish_def)
        obtain r3 where d3: "doFetch e ?u options w2 = (r3, w2\<lparr>trace := trace w2 @ [api_request e ?u options w2]\<rparr>)"
          using doFetch_world[OF nn2, of e ?u options] by (cases "doFetch e ?u options w2") auto
        have "trace (snd (qbRequest e endpoint options w)) =
                trace w @ [?rq1, refresh_request e w, api_request e ?u options w2]"
          using auth d1 \<open>r1 = Inr result\<close> True rf Inr d3 t2
          by (cases r3) (auto simp: qbRequest_def)
        then show ?thesis
          by (intro exI[of _ "[?rq1, refresh_request e w, api_request e ?u options w2]"]) auto
      qed
    qed
  qed
qed

lemma qbRequest_calls_shape:
  "\<exists>reqs. trace (snd (qbRequest e endpoint options w)) = trace w @ reqs \<and>
     (\<forall>rq\<in>set reqs. req_url rq = TOKEN_ENDPOINT \<or>
        (req_url rq = qb_url e endpoint
         \<and> req_method rq = (case http_method options of None \<Rightarrow> ''GET'' | Some m \<Rightarrow> m)
         \<and> req_body rq = (if truthy (body options) then TextBody (JSON_stringify e (body options))
                           else NoBody)))"
proof -
  from qbRequest_calls [of e endpoint options w] obtain reqs where
    t: "trace (snd (qbRequest e endpoint options w)) = trace w @ reqs"
    and r: "\<forall>rq\<in>set reqs. rq = refresh_request e w \<or> (\<exists>w'. rq = api_request e (qb_url e endpoint) options w')"
    by blast
  have "\<forall>rq\<in>set reqs. req_url rq = TOKEN_ENDPOINT \<or>
        (req_url rq = qb_url e endpoint
         \<and> req_method rq = (case http_method options of None \<Rightarrow> ''GET'' | Some m \<Rightarrow> m)
         \<and> req_body rq = (if truthy (body options) then TextBody (JSON_stringify e (body options))
                           else NoBody))"
  proof
    fix rq assume "rq \<in> set reqs"
    with r consider "rq = refresh_request e w" | w' where "rq = api_request e (qb_url e endpoint) options w'"
      by blast
    then show "req_url rq = TOKEN_ENDPOINT \<or>
        (req_url rq = qb_url e endpoint
         \<and> req_method rq = (case http_method options of None \<Rightarrow> ''GET'' | Some m \<Rightarrow> m)
         \<and> req_body rq = (if truthy (body options) then TextBody (JSON_stringify e (body options))
                           else NoBody))"
      by cases (simp_all add: api_request_def)
  qed
  with t show ?thesis by blast
qed

subsection \<open>Mappers and write bodies\<close>

lemma map_of_assign_if:
  "map_of (assign_if c k v qbo) k' = (if c \<and> k' = k then Some v else map_of qbo k')"
  by (simp add: assign_if_def update_conv')

lemma customer_text_omitted:
  assumes "(f, F) \<in> set customer_text_fields" and "\<not> truthy (obj_get input f)"
  shows "map_of (mapCustomerInputToQBO input) F = None"
  using assms
  apply (simp only: customer_text_fields_def list.set insert_iff empty_iff prod.inject simp_thms)
  apply (elim disjE conjE)
  apply (hypsubst, simp add: mapCustomerInputToQBO_def map_of_assign_if Let_def)+
  done

lemma account_text_omitted:
  assumes "(f, F) \<in> set account_text_fields" and "\<not> truthy (obj_get input f)"
  shows "map_of (mapAccountInputToQBO input) F = None"
  using assms
  apply (simp only: account_text_fields_def list.set insert_iff empty_iff prod.inject simp_thms)
  apply (elim disjE conjE)
  apply (hypsubst, simp add: mapAccountInputToQBO_def map_of_assign_if Let_def)+
  done

lemma customer_text_gated:
  assumes "(f, F) \<in> set customer_text_fields"
  shows "(map_of (mapCustomerInputToQBO input) F = None) = (\<not> truthy (obj_get input f))"
  using assms
  apply (simp only: customer_text_fields_def list.set insert_iff empty_iff prod.inject simp_thms)
  apply (elim disjE conjE)
  apply (hypsubst, simp add: mapCustomerInputToQBO_def map_of_assign_if Let_def)+
  done

lemma account_text_gated:
  assumes "(f, F) \<in> set account_text_fields"
  shows "(map_of (mapAccountInputToQBO input) F = None) = (\<not> truthy (obj_get input f))"
  using assms
  apply (simp only: account_text_fields_def list.set insert_iff empty_iff prod.inject simp_thms)
  apply (elim disjE conjE)
  apply (hypsubst, simp add: mapAccountInputToQBO_def map_of_assign_if Let_def)+
  done



lemma map_of_update_body:
  "field_map (update_body existing sparse mapped) =
     ([''Id'' \<mapsto> js_get existing ''Id'', ''SyncToken'' \<mapsto> js_get existing ''SyncToken'']
        ++ (if truthy sparse then [''sparse'' \<mapsto> JBool True] else Map.empty))
       ++ map_of mapped"
  by (auto simp: update_body_def map_of_spread fun_eq_iff map_add_def split: option.splits)


lemma truthy_update_body [simp]: "truthy (update_body existing sparse mapped)"
  by (simp add: update_body_def)

lemma active_body_ids [simp]:
  "js_get (active_body existing active) ''Id'' = js_get existing ''Id''"
  "js_get (active_body existing active) ''SyncToken'' = js_get existing ''SyncToken''"
  "truthy (active_body existing active)"
  by (simp_all add: active_body_def obj_get_def)

lemma bodies_42:
  assumes "js_get existing ''Id'' = JStr ''42''" and "js_get existing ''SyncToken'' = JStr ''3''"
  shows "update_body existing (JBool True) (mapAccountInputToQBO [(''active'', JBool False)])
           = deactivation_body"
    and "active_body existing (JBool False) = deactivation_body"
    and "update_body existing (JBool True) (mapCustomerInputToQBO [(''active'', JBool False)])
           = JObj [(''Id'', JStr ''42''), (''SyncToken'', JStr ''3''), (''sparse'', JBool True)]"
  using assms
  by (simp_all add: update_body_def active_body_def deactivation_body_def spread_def
        assign_props_def mapAccountInputToQBO_def mapCustomerInputToQBO_def assign_if_def
        obj_get_def Let_def)

lemma text_fields_not_reserved:
  "(f, F) \<in> set customer_text_fields \<Longrightarrow> F \<noteq> ''Id'' \<and> F \<noteq> ''SyncToken'' \<and> F \<noteq> ''sparse''"
  "(f, F) \<in> set account_text_fields \<Longrightarrow> F \<noteq> ''Id'' \<and> F \<noteq> ''SyncToken'' \<and> F \<noteq> ''sparse''"
  by (auto simp: customer_text_fields_def account_text_fields_def)

lemma update_body_unmapped:
  assumes "map_of mapped F = None" and "F \<noteq> ''Id''" and "F \<noteq> ''SyncToken''" and "F \<noteq> ''sparse''"
  shows "js_get (update_body existing sparse mapped) F = JUndefined"
proof -
  have "js_get (update_body existing sparse mapped) F =
          (case field_map (update_body existing sparse mapped) F of None \<Rightarrow> JUndefined | Some v \<Rightarrow> v)"
    by (simp add: update_body_def obj_get_def)
  then show ?thesis
    using assms by (simp add: map_of_update_body map_add_def)
qed

lemma sparse_update_keeps_text:
  assumes "obj_get patch f = JStr ''''"
  shows "(f, F) \<in> set customer_text_fields \<Longrightarrow>
           js_get (update_body existing sparse (mapCustomerInputToQBO patch)) F = JUndefined"
    and "(f, F) \<in> set account_text_fields \<Longrightarrow>
           js_get (update_body existing sparse (mapAccountInputToQBO patch)) F = JUndefined"
proof -
  have n: "\<not> truthy (obj_get patch f)" using assms by simp
  show "(f, F) \<in> set customer_text_fields \<Longrightarrow>
           js_get (update_body existing sparse (mapCustomerInputToQBO patch)) F = JUndefined"
    using customer_text_omitted [OF _ n] text_fields_not_reserved(1) [of f F]
    by (intro update_body_unmapped) simp_all
  show "(f, F) \<in> set account_text_fields \<Longrightarrow>
           js_get (update_body existing sparse (mapAccountInputToQBO patch)) F = JUndefined"
    using account_text_omitted [OF _ n] text_fields_not_reserved(2) [of f F]
    by (intro update_body_unmapped) simp_all
qed

subsection \<open>Sample fetches\<close>

lemmas run_defs =
  qbRequest_def doFetch_def fetch_def getCustomerRaw_def getAccountRaw_def

lemma sample_read_42:
  "getCustomerRaw (sample_env expired_remote) ''42'' (signed_in ''new'')
     = (Inr ex42,
        signed_in ''new''
          \<lparr>trace := [api_request (sample_env expired_remote)
                       (qb_url (sample_env expired_remote) ''customer/42'')
                       \<lparr>http_method = Some ''GET'', body = JUndefined, headers = None\<rparr>
                       (signed_in ''new'')]\<rparr>)"
  by (simp add: run_defs expired_remote_def sample_defs)

lemma sample_read_account_42:
  "getAccountRaw (sample_env expired_remote) ''42'' (signed_in ''new'')
     = (Inr ex42,
        signed_in ''new''
          \<lparr>trace := [api_request (sample_env expired_remote)
                       (qb_url (sample_env expired_remote) ''account/42'')
                       \<lparr>http_method = Some ''GET'', body = JUndefined, headers = None\<rparr>
                       (signed_in ''new'')]\<rparr>)"
  by (simp add: run_defs expired_remote_def sample_defs)

subsection \<open>The calls of an update\<close>











lemma api_request_GET:
  "fetch_call e endpoint (api_request e (qb_url e endpoint) GET_options w')"
  by (simp add: api_request_def)

lemma api_request_POST:
  "truthy write \<Longrightarrow> write_call e endpoint write (api_request e (qb_url e endpoint) (POST_options write) w')"
  by (simp add: api_request_def)





subsection \<open>The mappers on a store\<close>

lemma store_assign_if_last:
  "input_ref < length base \<Longrightarrow>
   store_assign_if (length base) input_ref c k v (base @ [qbo])
     = base @ [assign_if (c (base ! input_ref)) k (v (base ! input_ref)) qbo]"
  by (simp add: store_assign_if_def assign_if_def nth_append)

lemma mapCustomerInputToQBO_store_eq:
  "input_ref < length st \<Longrightarrow>
   mapCustomerInputToQBO_store input_ref st
     = (length st, st @ [mapCustomerInputToQBO (st ! input_ref)])"
  by (simp add: mapCustomerInputToQBO_store_def mapCustomerInputToQBO_def new_object_def
        Let_def store_assign_if_last)

lemma mapAccountInputToQBO_store_eq:
  "input_ref < length st \<Longrightarrow>
   mapAccountInputToQBO_store input_ref st
     = (length st, st @ [mapAccountInputToQBO (st ! input_ref)])"
  by (simp add: mapAccountInputToQBO_store_def mapAccountInputToQBO_def new_object_def
        Let_def store_assign_if_last)

section \<open>Properties\<close>

subsection \<open>Refresh without a refresh token\<close>

text \<open>
  C5. Whenever \<open>refreshTokens\<close> runs while the bundle has no \<open>refresh_token\<close> (the bundle
  is \<open>null\<close>, or the field is absent or falsy), it throws "No refresh_token available;
  re-authentication required." and leaves the world as it was: in particular no HTTP
  call has been issued.
\<close>

theorem refresh_needs_refresh_token:
  assumes "nullish (tokens w) \<or> \<not> truthy (js_get (tokens w) ''refresh_token'')"
  shows "refreshTokens e w = (Inl RefreshUnavailable, w)
         \<and> trace (snd (refreshTokens e w)) = trace w"
  using assms by (auto simp: refreshTokens_def js_opt_get_def)

theorem refresh_needs_refresh_token_witness:
  "refreshTokens (sample_env expired_remote) start_world = (Inl RefreshUnavailable, start_world)
   \<and> trace (snd (refreshTokens (sample_env expired_remote) start_world)) = []"
  using refresh_needs_refresh_token [of start_world "sample_env expired_remote"]
  by (simp add: start_world_def nullish_def)

subsection \<open>A missing credentials file\<close>

text \<open>
  C8. When the credentials file does not exist, \<open>loadTokens\<close> returns normally and leaves
  \<open>tokens\<close> as it is, \<open>null\<close> at process start; a call of the executor after that
  throws "Not authenticated. Run auth first." in an unchanged world, so before any
  network call.
\<close>

theorem missing_credentials_file:
  assumes "disk w = None" and "tokens w = JNull"
  shows "loadTokens e w = (Inr (), w)
         \<and> qbRequest e endpoint options (snd (loadTokens e w)) = (Inl NotAuthenticated, w)"
  using assms by (simp add: loadTokens_def qbRequest_def js_opt_get_def nullish_def)

theorem missing_credentials_file_witness:
  "loadTokens (sample_env expired_remote) start_world = (Inr (), start_world)
   \<and> qbRequest (sample_env expired_remote) ''customer/42'' no_options
        (snd (loadTokens (sample_env expired_remote) start_world))
      = (Inl NotAuthenticated, start_world)"
proof -
  have d: "disk start_world = None" and t: "tokens start_world = JNull"
    by (simp_all add: start_world_def)
  from missing_credentials_file [OF d t] show ?thesis .
qed

subsection \<open>The minorversion parameter\<close>

text \<open>
  C7. For every endpoint, the first call of the executor goes to the URL built so far
  (base, realm, endpoint) followed by \<open>?minorversion=75\<close> when that URL has no \<open>?\<close> in
  it, and by \<open>&minorversion=75\<close> when it has one; every later call of the same run
  goes to the same URL or to the token endpoint.
\<close>

theorem minorversion_separator:
  assumes "truthy (js_opt_get (tokens w) ''access_token'')"
  shows "\<exists>rq rest.
           trace (snd (qbRequest e endpoint options w)) = trace w @ rq # rest
           \<and> (CHR ''?'' \<notin> set (baseUrl e endpoint) \<longrightarrow>
                req_url rq = baseUrl e endpoint @ ''?minorversion=75'')
           \<and> (CHR ''?'' \<in> set (baseUrl e endpoint) \<longrightarrow>
                req_url rq = baseUrl e endpoint @ ''&minorversion=75'')
           \<and> (\<forall>r\<in>set rest. req_url r = TOKEN_ENDPOINT \<or> req_url r = req_url rq)"
proof -
  from qbRequest_calls [of e endpoint options w] assms obtain rest where
    t: "trace (snd (qbRequest e endpoint options w)) =
          trace w @ api_request e (qb_url e endpoint) options w # rest"
    and r: "\<forall>rq\<in>set rest. rq = refresh_request e w
              \<or> (\<exists>w'. rq = api_request e (qb_url e endpoint) options w')"
    by auto
  from r have "\<forall>rq\<in>set rest. req_url rq = TOKEN_ENDPOINT \<or> req_url rq = qb_url e endpoint"
    by auto
  with t show ?thesis
    by (intro exI [of _ "api_request e (qb_url e endpoint) options w"] exI [of _ rest])
       (simp add: qb_url_eq)
qed

theorem minorversion_separator_witness:
  "(\<exists>rq rest.
      trace (snd (qbRequest (sample_env expired_remote) ''customer/42'' no_options (signed_in ''new'')))
        = rq # rest
      \<and> req_url rq =
          ''https://sandbox-quickbooks.api.intuit.com/v3/company/123/customer/42?minorversion=75''
      \<and> (\<forall>r\<in>set rest. req_url r = TOKEN_ENDPOINT \<or> req_url r = req_url rq))
   \<and> (\<exists>rq rest.
      trace (snd (qbRequest (sample_env expired_remote) ''query?query=x'' no_options (signed_in ''new'')))
        = rq # rest
      \<and> req_url rq =
          ''https://sandbox-quickbooks.api.intuit.com/v3/company/123/query?query=x&minorversion=75''
      \<and> (\<forall>r\<in>set rest. req_url r = TOKEN_ENDPOINT \<or> req_url r = req_url rq))"
proof -
  have a: "truthy (js_opt_get (tokens (signed_in ''new'')) ''access_token'')"
    by (simp add: signed_in_def js_opt_get_def nullish_def obj_get_def)
  have t: "trace (signed_in ''new'') = []"
    by (simp add: signed_in_def)
  have b1: "baseUrl (sample_env expired_remote) ''customer/42''
              = ''https://sandbox-quickbooks.api.intuit.com/v3/company/123/customer/42''"
    and b2: "baseUrl (sample_env expired_remote) ''query?query=x''
              = ''https://sandbox-quickbooks.api.intuit.com/v3/company/123/query?query=x''"
    by (simp_all add: baseUrl_def sample_env_def QB_BASE_def)
  from minorversion_separator [OF a, of "sample_env expired_remote" "''customer/42''" no_options]
  have c1: "\<exists>rq rest.
      trace (snd (qbRequest (sample_env expired_remote) ''customer/42'' no_options (signed_in ''new'')))
        = rq # rest
      \<and> req_url rq =
          ''https://sandbox-quickbooks.api.intuit.com/v3/company/123/customer/42?minorversion=75''
      \<and> (\<forall>r\<in>set rest. req_url r = TOKEN_ENDPOINT \<or> req_url r = req_url rq)"
    unfolding b1 t by simp
  from minorversion_separator [OF a, of "sample_env expired_remote" "''query?query=x''" no_options]
  have c2: "\<exists>rq rest.
      trace (snd (qbRequest (sample_env expired_remote) ''query?query=x'' no_options (signed_in ''new'')))
        = rq # rest
      \<and> req_url rq =
          ''https://sandbox-quickbooks.api.intuit.com/v3/company/123/query?query=x&minorversion=75''
      \<and> (\<forall>r\<in>set rest. req_url r = TOKEN_ENDPOINT \<or> req_url r = req_url rq)"
    unfolding b2 t by simp
  from c1 c2 show ?thesis by (rule conjI)
qed

subsection \<open>Merging a refresh response\<close>

text \<open>
  C4. For every bundle that has a refresh token and every refresh response with a 2xx
  status and a JSON body, \<open>refreshTokens\<close> succeeds after exactly one call to the token
  endpoint; the bundle then in memory has every field of the response with the
  response's value and, for every name the response does not have, what the old bundle
  had under it; and the credentials file holds the serialization of that same bundle.
\<close>

theorem refresh_merges_bundle:
  assumes "truthy (js_opt_get (tokens w) ''refresh_token'')"
      and "remote e (trace w) (refresh_request e w) = Response status text"
      and "ok status"
      and "JSON_parse e text = Some data"
  shows "case refreshTokens e w of
           (r, w') \<Rightarrow>
             r = Inr ()
             \<and> disk w' = Some (JSON_stringify_pretty e (tokens w'))
             \<and> trace w' = trace w @ [refresh_request e w]
             \<and> (\<forall>k v. field_map data k = Some v \<longrightarrow> field_map (tokens w') k = Some v)
             \<and> (\<forall>k. field_map data k = None \<longrightarrow> field_map (tokens w') k = field_map (tokens w) k)"
proof -
  from refreshTokens_success [OF assms] obtain merged where
    run: "refreshTokens e w =
            (Inr (), w\<lparr>tokens := JObj merged,
                       disk := Some (JSON_stringify_pretty e (JObj merged)),
                       trace := trace w @ [refresh_request e w]\<rparr>)"
    and m: "map_of merged = field_map (tokens w) ++ field_map data"
    by blast
  have "\<forall>k v. field_map data k = Some v \<longrightarrow> map_of merged k = Some v"
    by (simp add: m map_add_def)
  moreover have "\<forall>k. field_map data k = None \<longrightarrow> map_of merged k = field_map (tokens w) k"
    by (simp add: m map_add_def)
  ultimately show ?thesis by (simp add: run)
qed

theorem refresh_merges_bundle_witness:
  "fst (refreshTokens (sample_env expired_remote) (signed_in ''old'')) = Inr ()
   \<and> field_map (tokens (snd (refreshTokens (sample_env expired_remote) (signed_in ''old''))))
        ''access_token'' = Some (JStr ''new'')
   \<and> field_map (tokens (snd (refreshTokens (sample_env expired_remote) (signed_in ''old''))))
        ''refresh_token'' = Some (JStr ''r2'')
   \<and> field_map (tokens (snd (refreshTokens (sample_env expired_remote) (signed_in ''old''))))
        ''token_type'' = Some (JStr ''bearer'')
   \<and> disk (snd (refreshTokens (sample_env expired_remote) (signed_in ''old'')))
        = Some (JSON_stringify_pretty (sample_env expired_remote)
                  (tokens (snd (refreshTokens (sample_env expired_remote) (signed_in ''old'')))))
   \<and> length (trace (snd (refreshTokens (sample_env expired_remote) (signed_in ''old'')))) = 1"
proof -
  let ?e = "sample_env expired_remote"
  let ?w = "signed_in ''old''"
  let ?data = "JObj [(''access_token'', JStr ''new''), (''refresh_token'', JStr ''r2'')]"
  have h2: "remote ?e (trace ?w) (refresh_request ?e ?w) = Response 200 rotated_tokens_text"
    by (simp add: sample_env_def expired_remote_def sample_remote_def)
  have h3: "ok 200" by (simp add: ok_def)
  have h4: "JSON_parse ?e rotated_tokens_text = Some ?data"
    by (simp add: sample_env_def sample_parse_def rotated_tokens_text_def)
  have f: "field_map ?data ''access_token'' = Some (JStr ''new'')"
    "field_map ?data ''refresh_token'' = Some (JStr ''r2'')"
    "field_map ?data ''token_type'' = None"
    "field_map (tokens ?w) ''token_type'' = Some (JStr ''bearer'')"
    "trace ?w = []"
    by (simp_all add: signed_in_def)
  from refresh_merges_bundle [OF signed_in_refreshable h2 h3 h4] f show ?thesis
    by (auto simp: case_prod_unfold)
qed

subsection \<open>Errors of the remote API\<close>

text \<open>
  C6. For every call of the executor and every status that is neither 2xx nor 401:
  when the first response has that status, the executor throws the error carrying the
  status and the raw response text, having sent that one request only; and when the
  response to the retry (after a 401 and a successful refresh) has that status, it
  throws the same kind of error with nothing sent after the retry. The endpoint and the
  options are arbitrary, so this covers the write of an update meeting a version
  conflict.
\<close>

theorem remote_error_not_retried:
  assumes auth: "truthy (js_opt_get (tokens w) ''access_token'')"
      and bad: "\<not> ok status" "status \<noteq> 401"
  shows "(remote e (trace w) (api_request e (qb_url e endpoint) options w) = Response status text \<longrightarrow>
            qbRequest e endpoint options w =
              (Inl (RemoteApiError status text),
               w\<lparr>trace := trace w @ [api_request e (qb_url e endpoint) options w]\<rparr>))
         \<and> (\<forall>text1 w2.
               remote e (trace w) (api_request e (qb_url e endpoint) options w) = Response 401 text1
               \<and> refreshTokens e (w\<lparr>trace := trace w @ [api_request e (qb_url e endpoint) options w]\<rparr>)
                   = (Inr (), w2)
               \<and> remote e (trace w2) (api_request e (qb_url e endpoint) options w2) = Response status text
               \<longrightarrow>
               qbRequest e endpoint options w =
                 (Inl (RemoteApiError status text),
                  w2\<lparr>trace := trace w2 @ [api_request e (qb_url e endpoint) options w2]\<rparr>))"
proof (intro conjI impI allI)
  have nn: "\<not> nullish (tokens w)" using auth by (rule truthy_opt_get_not_nullish)
  assume "remote e (trace w) (api_request e (qb_url e endpoint) options w) = Response status text"
  from doFetch_error [OF nn this bad] auth
  show "qbRequest e endpoint options w =
          (Inl (RemoteApiError status text),
           w\<lparr>trace := trace w @ [api_request e (qb_url e endpoint) options w]\<rparr>)"
    by (simp add: qbRequest_def)
next
  fix text1 w2
  assume a: "remote e (trace w) (api_request e (qb_url e endpoint) options w) = Response 401 text1
             \<and> refreshTokens e (w\<lparr>trace := trace w @ [api_request e (qb_url e endpoint) options w]\<rparr>)
                 = (Inr (), w2)
             \<and> remote e (trace w2) (api_request e (qb_url e endpoint) options w2) = Response status text"
  then have rf: "refreshTokens e (w\<lparr>trace := trace w @ [api_request e (qb_url e endpoint) options w]\<rparr>)
                   = (Inr (), w2)" by simp
  from refreshTokens_tokens [OF rf] have nn2: "\<not> nullish (tokens w2)" by (auto simp: nullish_def)
  from a have "remote e (trace w2) (api_request e (qb_url e endpoint) options w2) = Response status text"
    by simp
  from doFetch_error [OF nn2 this bad] a qbRequest_after_401 [OF auth, of e endpoint options text1]
  show "qbRequest e endpoint options w =
          (Inl (RemoteApiError status text),
           w2\<lparr>trace := trace w2 @ [api_request e (qb_url e endpoint) options w2]\<rparr>)"
    by (simp add: rf)
qed

theorem remote_error_not_retried_witness:
  "fst (qbRequest (sample_env conflict_remote) ''customer?operation=update'' deactivate_42
          (signed_in ''new''))
     = Inl (RemoteApiError 400 ''Stale Object Error'')
   \<and> length (trace (snd (qbRequest (sample_env conflict_remote) ''customer?operation=update''
                             deactivate_42 (signed_in ''new'')))) = 1
   \<and> fst (qbRequest (sample_env conflict_remote) ''customer?operation=update'' deactivate_42
          (signed_in ''old''))
     = Inl (RemoteApiError 400 ''Stale Object Error'')
   \<and> length (trace (snd (qbRequest (sample_env conflict_remote) ''customer?operation=update''
                             deactivate_42 (signed_in ''old'')))) = 3"
proof -
  let ?e = "sample_env conflict_remote"
  let ?ep = "''customer?operation=update''"
  let ?rq = "\<lambda>w. api_request ?e (qb_url ?e ?ep) deactivate_42 w"
  let ?w2 = "refreshed [?rq (signed_in ''old''), refresh_request ?e (signed_in ''old'')]"
  have bad: "\<not> ok 400" "(400::nat) \<noteq> 401" by (simp_all add: ok_def)
  have new: "truthy (js_opt_get (tokens (signed_in ''new'')) ''access_token'')"
    and old: "truthy (js_opt_get (tokens (signed_in ''old'')) ''access_token'')"
    by (simp_all add: signed_in_auth)
  have r_new: "remote ?e (trace (signed_in ''new'')) (?rq (signed_in ''new''))
                 = Response 400 ''Stale Object Error''"
    by (simp add: conflict_remote_def sample_defs)
  have r_old: "remote ?e (trace (signed_in ''old'')) (?rq (signed_in ''old''))
                 = Response 401 ''token expired''"
    by (simp add: conflict_remote_def sample_defs)
  have rf: "refreshTokens ?e (signed_in ''old''\<lparr>trace := trace (signed_in ''old'') @ [?rq (signed_in ''old'')]\<rparr>)
              = (Inr (), ?w2)"
    using refresh_rotating [of ?e _ "[?rq (signed_in ''old'')]"]
    by (simp add: conflict_remote_def signed_in_def)
  have r_retry: "remote ?e (trace ?w2) (?rq ?w2) = Response 400 ''Stale Object Error''"
    by (simp add: conflict_remote_def refreshed_def sample_defs)
  from remote_error_not_retried [OF new bad, of ?e ?ep deactivate_42 "''Stale Object Error''"] r_new
  have a: "qbRequest ?e ?ep deactivate_42 (signed_in ''new'')
             = (Inl (RemoteApiError 400 ''Stale Object Error''),
                signed_in ''new''\<lparr>trace := trace (signed_in ''new'') @ [?rq (signed_in ''new'')]\<rparr>)"
    by blast
  from remote_error_not_retried [OF old bad, of ?e ?ep deactivate_42 "''Stale Object Error''"]
    r_old rf r_retry
  have b: "qbRequest ?e ?ep deactivate_42 (signed_in ''old'')
             = (Inl (RemoteApiError 400 ''Stale Object Error''),
                ?w2\<lparr>trace := trace ?w2 @ [?rq ?w2]\<rparr>)"
    by blast
  show ?thesis
    unfolding a b by (simp add: signed_in_def refreshed_def)
qed

subsection \<open>Refresh and retry\<close>

text \<open>
  C1, as stated, fails: a 401 is not always followed by a retry. With a token endpoint
  that rejects the refresh the executor sends the request and one refresh call, and
  throws the refresh error; with no refresh token in the bundle it sends the request
  only and throws "No refresh_token available; re-authentication required.".
\<close>

theorem a_401_without_retry:
  "remote (sample_env denied_remote) (trace (signed_in ''old''))
       (api_request (sample_env denied_remote) (qb_url (sample_env denied_remote) ''customer/42'')
          no_options (signed_in ''old''))
     = Response 401 ''token expired''
   \<and> qbRequest (sample_env denied_remote) ''customer/42'' no_options (signed_in ''old'')
     = (Inl (RefreshFailed 400 invalid_grant_text),
        signed_in ''old''
          \<lparr>trace :=
             [api_request (sample_env denied_remote) (qb_url (sample_env denied_remote) ''customer/42'')
                no_options (signed_in ''old''),
              refresh_request (sample_env denied_remote) (signed_in ''old'')]\<rparr>)
   \<and> remote (sample_env expired_remote) (trace access_only)
       (api_request (sample_env expired_remote) (qb_url (sample_env expired_remote) ''customer/42'')
          no_options access_only)
     = Response 401 ''token expired''
   \<and> qbRequest (sample_env expired_remote) ''customer/42'' no_options access_only
     = (Inl RefreshUnavailable,
        access_only
          \<lparr>trace :=
             [api_request (sample_env expired_remote) (qb_url (sample_env expired_remote) ''customer/42'')
                no_options access_only]\<rparr>)"
proof -
  let ?d = "sample_env denied_remote"
  let ?x = "sample_env expired_remote"
  let ?rqd = "api_request ?d (qb_url ?d ''customer/42'') no_options (signed_in ''old'')"
  let ?rqx = "api_request ?x (qb_url ?x ''customer/42'') no_options access_only"
  have old: "truthy (js_opt_get (tokens (signed_in ''old'')) ''access_token'')"
    by (simp add: signed_in_auth)
  have acc: "truthy (js_opt_get (tokens access_only) ''access_token'')"
    by (simp add: access_only_def js_opt_get_def nullish_def obj_get_def)
  have r1: "remote ?d (trace (signed_in ''old'')) ?rqd = Response 401 ''token expired''"
    by (simp add: denied_remote_def sample_defs)
  have r2: "remote ?x (trace access_only) ?rqx = Response 401 ''token expired''"
    by (simp add: expired_remote_def sample_defs)
  have f1: "refreshTokens ?d (signed_in ''old''\<lparr>trace := trace (signed_in ''old'') @ [?rqd]\<rparr>)
              = (Inl (RefreshFailed 400 invalid_grant_text),
                 signed_in ''old''\<lparr>trace := [?rqd, refresh_request ?d (signed_in ''old'')]\<rparr>)"
    by (simp add: refreshTokens_def fetch_def denied_remote_def sample_remote_def signed_in_def
          js_opt_get_def nullish_def obj_get_def ok_def refresh_request_def)
  have f2: "refreshTokens ?x (access_only\<lparr>trace := trace access_only @ [?rqx]\<rparr>)
              = (Inl RefreshUnavailable, access_only\<lparr>trace := [?rqx]\<rparr>)"
    by (simp add: refreshTokens_def access_only_def js_opt_get_def nullish_def obj_get_def)
  have q1: "qbRequest ?d ''customer/42'' no_options (signed_in ''old'')
              = (Inl (RefreshFailed 400 invalid_grant_text),
                 signed_in ''old''\<lparr>trace := [?rqd, refresh_request ?d (signed_in ''old'')]\<rparr>)"
    by (simp add: qbRequest_after_401 [OF old r1] f1)
  have q2: "qbRequest ?x ''customer/42'' no_options access_only
              = (Inl RefreshUnavailable, access_only\<lparr>trace := [?rqx]\<rparr>)"
    by (simp add: qbRequest_after_401 [OF acc r2] f2)
  from r1 q1 r2 q2 show ?thesis by blast
qed

text \<open>
  C1, amended. When the first response to a call of the executor is a 401, the executor
  runs \<open>refreshTokens\<close> once. If that fails, its error is the executor's and no retry is
  sent (at most the one call to the token endpoint follows the request). If it
  succeeds, the executor has sent exactly three requests when it returns: the request,
  one call to the token endpoint, and one retry with the same URL, method and body;
  and if the retry is answered with a 401 again, the executor throws "Unauthorized
  after token refresh." without a further request.
\<close>

theorem retry_once_after_401:
  assumes auth: "truthy (js_opt_get (tokens w) ''access_token'')"
      and first: "remote e (trace w) (api_request e (qb_url e endpoint) options w) = Response 401 text"
  shows "(\<forall>err w2.
            refreshTokens e (w\<lparr>trace := trace w @ [api_request e (qb_url e endpoint) options w]\<rparr>)
              = (Inl err, w2) \<longrightarrow>
            qbRequest e endpoint options w = (Inl err, w2)
            \<and> (trace w2 = trace w @ [api_request e (qb_url e endpoint) options w]
               \<or> trace w2 = trace w @ [api_request e (qb_url e endpoint) options w, refresh_request e w]))
         \<and> (\<forall>w2.
            refreshTokens e (w\<lparr>trace := trace w @ [api_request e (qb_url e endpoint) options w]\<rparr>)
              = (Inr (), w2) \<longrightarrow>
            trace (snd (qbRequest e endpoint options w)) =
              trace w @ [api_request e (qb_url e endpoint) options w, refresh_request e w,
                         api_request e (qb_url e endpoint) options w2]
            \<and> req_url (api_request e (qb_url e endpoint) options w2)
                = req_url (api_request e (qb_url e endpoint) options w)
            \<and> req_method (api_request e (qb_url e endpoint) options w2)
                = req_method (api_request e (qb_url e endpoint) options w)
            \<and> req_body (api_request e (qb_url e endpoint) options w2)
                = req_body (api_request e (qb_url e endpoint) options w)
            \<and> (\<forall>text2.
                 remote e (trace w2) (api_request e (qb_url e endpoint) options w2) = Response 401 text2 \<longrightarrow>
                 fst (qbRequest e endpoint options w) = Inl UnauthorizedAfterRefresh))"
proof (intro conjI allI impI)
  let ?rq1 = "api_request e (qb_url e endpoint) options w"
  let ?w1 = "w\<lparr>trace := trace w @ [?rq1]\<rparr>"
  note run = qbRequest_after_401 [OF auth first]
  {
    fix err w2
    assume rf: "refreshTokens e ?w1 = (Inl err, w2)"
    show "qbRequest e endpoint options w = (Inl err, w2)"
      by (simp add: run rf)
    from refreshTokens_err_trace [OF rf]
    show "trace w2 = trace w @ [?rq1] \<or> trace w2 = trace w @ [?rq1, refresh_request e w]"
      by simp
  }
  {
    fix w2
    assume rf: "refreshTokens e ?w1 = (Inr (), w2)"
    let ?rq2 = "api_request e (qb_url e endpoint) options w2"
    from refreshTokens_tokens [OF rf] have nn2: "\<not> nullish (tokens w2)" by (auto simp: nullish_def)
    from refreshTokens_ok_trace [OF rf] have t2: "trace w2 = trace w @ [?rq1, refresh_request e w]"
      by simp
    obtain r3 where d3: "doFetch e (qb_url e endpoint) options w2 = (r3, w2\<lparr>trace := trace w2 @ [?rq2]\<rparr>)"
      using doFetch_world [OF nn2, of e "qb_url e endpoint" options]
      by (cases "doFetch e (qb_url e endpoint) options w2") auto
    show "trace (snd (qbRequest e endpoint options w)) = trace w @ [?rq1, refresh_request e w, ?rq2]"
      by (cases r3) (simp_all add: run rf d3 t2)
    show "req_url ?rq2 = req_url ?rq1" "req_method ?rq2 = req_method ?rq1" "req_body ?rq2 = req_body ?rq1"
      by (simp_all add: api_request_def)
    {
      fix text2
      assume "remote e (trace w2) ?rq2 = Response 401 text2"
      from doFetch_401 [OF nn2 this]
      show "fst (qbRequest e endpoint options w) = Inl UnauthorizedAfterRefresh"
        by (simp add: run rf)
    }
  }
qed

theorem retry_once_after_401_witness:
  "map req_url (trace (snd (qbRequest (sample_env expired_remote) ''customer/42'' no_options
                              (signed_in ''old''))))
     = [qb_url (sample_env expired_remote) ''customer/42'', TOKEN_ENDPOINT,
        qb_url (sample_env expired_remote) ''customer/42'']
   \<and> fst (qbRequest (sample_env locked_remote) ''customer/42'' no_options (signed_in ''old''))
     = Inl UnauthorizedAfterRefresh
   \<and> map req_url (trace (snd (qbRequest (sample_env locked_remote) ''customer/42'' no_options
                              (signed_in ''old''))))
     = [qb_url (sample_env locked_remote) ''customer/42'', TOKEN_ENDPOINT,
        qb_url (sample_env locked_remote) ''customer/42'']
   \<and> fst (qbRequest (sample_env denied_remote) ''customer/42'' no_options (signed_in ''old''))
     = Inl (RefreshFailed 400 invalid_grant_text)"
proof -
  let ?w = "signed_in ''old''"
  let ?x = "sample_env expired_remote"
  let ?l = "sample_env locked_remote"
  let ?d = "sample_env denied_remote"
  let ?rq = "\<lambda>e w. api_request e (qb_url e ''customer/42'') no_options w"
  have old: "truthy (js_opt_get (tokens ?w) ''access_token'')"
    by (simp add: signed_in_auth)
  have t0: "trace ?w = []" by (simp add: signed_in_def)
  \<comment> \<open>the token endpoint rotates the tokens: one refresh, one retry\<close>
  have rx: "remote ?x (trace ?w) (?rq ?x ?w) = Response 401 ''token expired''"
    by (simp add: expired_remote_def sample_defs)
  have fx: "refreshTokens ?x (?w\<lparr>trace := trace ?w @ [?rq ?x ?w]\<rparr>)
              = (Inr (), refreshed [?rq ?x ?w, refresh_request ?x ?w])"
    using refresh_rotating [of ?x _ "[?rq ?x ?w]"]
    by (simp add: expired_remote_def signed_in_def)
  from retry_once_after_401 [OF old rx] fx
  have a: "trace (snd (qbRequest ?x ''customer/42'' no_options ?w))
             = trace ?w @ [?rq ?x ?w, refresh_request ?x ?w,
                           ?rq ?x (refreshed [?rq ?x ?w, refresh_request ?x ?w])]"
    by blast
  \<comment> \<open>the refreshed token is refused as well: no third call\<close>
  let ?w2 = "snd (refreshTokens ?l (?w\<lparr>trace := trace ?w @ [?rq ?l ?w]\<rparr>))"
  have rl: "remote ?l (trace ?w) (?rq ?l ?w) = Response 401 ''token expired''"
    by (simp add: locked_remote_def sample_defs)
  have "fst (refreshTokens ?l (?w\<lparr>trace := trace ?w @ [?rq ?l ?w]\<rparr>)) = Inr ()"
    by (simp add: refreshTokens_def fetch_def saveTokens_def locked_remote_def sample_remote_def
          signed_in_def js_opt_get_def nullish_def obj_get_def ok_def refresh_request_def
          sample_parse_def)
  then have fl: "refreshTokens ?l (?w\<lparr>trace := trace ?w @ [?rq ?l ?w]\<rparr>) = (Inr (), ?w2)"
    by (simp add: prod_eq_iff)
  have tl: "tokens ?w2 = tokens ?w"
    by (simp add: refreshTokens_def fetch_def saveTokens_def locked_remote_def sample_remote_def
          signed_in_def js_opt_get_def nullish_def nullish_or_def obj_get_def ok_def
          refresh_request_def sample_parse_def spread_def assign_props_def)
  have same: "?rq ?l ?w2 = ?rq ?l ?w"
    by (rule api_request_tokens [OF tl])
  have rl2: "remote ?l (trace ?w2) (?rq ?l ?w2) = Response 401 ''token expired''"
    unfolding same by (simp add: locked_remote_def sample_defs)
  from retry_once_after_401 [OF old rl] fl rl2
  have b: "trace (snd (qbRequest ?l ''customer/42'' no_options ?w))
             = trace ?w @ [?rq ?l ?w, refresh_request ?l ?w, ?rq ?l ?w2]"
    and c: "fst (qbRequest ?l ''customer/42'' no_options ?w) = Inl UnauthorizedAfterRefresh"
    by blast+
  \<comment> \<open>the token endpoint rejects the refresh: its error comes back, no retry\<close>
  have rd: "remote ?d (trace ?w) (?rq ?d ?w) = Response 401 ''token expired''"
    by (simp add: denied_remote_def sample_defs)
  have fd: "refreshTokens ?d (?w\<lparr>trace := trace ?w @ [?rq ?d ?w]\<rparr>)
              = (Inl (RefreshFailed 400 invalid_grant_text),
                 ?w\<lparr>trace := [?rq ?d ?w, refresh_request ?d ?w]\<rparr>)"
    by (simp add: refreshTokens_def fetch_def denied_remote_def sample_remote_def signed_in_def
          js_opt_get_def nullish_def obj_get_def ok_def refresh_request_def)
  from retry_once_after_401 [OF old rd] fd
  have d: "qbRequest ?d ''customer/42'' no_options ?w
             = (Inl (RefreshFailed 400 invalid_grant_text),
                ?w\<lparr>trace := [?rq ?d ?w, refresh_request ?d ?w]\<rparr>)"
    by blast
  show ?thesis
    unfolding a b c d t0 by simp
qed

subsection \<open>Fetch before write\<close>




subsection \<open>The write body of a deactivation\<close>

text \<open>
  C3, as stated, fails for customers: \<open>update_customer\<close> has no \<open>active\<close> field and
  \<open>mapCustomerInputToQBO\<close> does not map one. On the patch \<open>{active: false}\<close>, for the
  customer fetched with \<open>Id\<close> "42" and \<open>SyncToken\<close> "3", the write it sends has the body
  \<open>{"Id":"42","SyncToken":"3","sparse":true}\<close>, without \<open>Active\<close>.
\<close>

theorem update_customer_drops_active:
  \<open>map req_body
     (trace (snd (update_customer (sample_env expired_remote)
                    [(''customerId'', JStr ''42''), (''sparse'', JBool True), (''active'', JBool False)]
                    (signed_in ''new''))))
   = [NoBody, TextBody ''{"Id":"42","SyncToken":"3","sparse":true}'']\<close>
proof -
  let ?e = "sample_env expired_remote"
  let ?w1 = "signed_in ''new''
          \<lparr>trace := [api_request ?e (qb_url ?e ''customer/42'')
                       \<lparr>http_method = Some ''GET'', body = JUndefined, headers = None\<rparr>
                       (signed_in ''new'')]\<rparr>"
  let ?b = "JObj [(''Id'', JStr ''42''), (''SyncToken'', JStr ''3''), (''sparse'', JBool True)]"
  have ex: "js_get ex42 ''Id'' = JStr ''42''" "js_get ex42 ''SyncToken'' = JStr ''3''"
    by (simp_all add: ex42_def obj_get_def)
  have b: "update_body ex42 (JBool True)
             (mapCustomerInputToQBO
                (rest_props [''customerId'', ''sparse'']
                   [(''customerId'', JStr ''42''), (''sparse'', JBool True), (''active'', JBool False)]))
           = ?b"
    using bodies_42(3) [OF ex] by (simp add: rest_props_def)
  have g: "truthy (js_opt_get ex42 ''Id'')" "js_get ex42 ''SyncToken'' \<noteq> JUndefined"
    by (simp_all add: ex42_def obj_get_def js_opt_get_def nullish_def)
  have s: "snd (update_customer ?e
                  [(''customerId'', JStr ''42''), (''sparse'', JBool True), (''active'', JBool False)]
                  (signed_in ''new''))
           = snd (qbRequest ?e ''customer?operation=update''
                    \<lparr>http_method = Some ''POST'', body = ?b, headers = None\<rparr> ?w1)"
    by (simp add: update_customer_def Let_def obj_get_def sample_read_42 g b
          split: prod.splits sum.splits)
  show ?thesis
    unfolding s by (simp add: run_defs expired_remote_def sample_defs)
qed

text \<open>
  C3, amended. On an entity fetched with \<open>Id\<close> "42" and \<open>SyncToken\<close> "3":
  \<open>update_account\<close> with \<open>sparse: true\<close> and the patch \<open>{active: false}\<close>, and
  \<open>set_account_active\<close> and \<open>set_customer_active\<close> with \<open>active: false\<close>, send the
  write with the body \<open>{Id: "42", SyncToken: "3", sparse: true, Active: false}\<close> exactly;
  \<open>update_customer\<close> with \<open>sparse: true\<close> and the patch \<open>{active: false}\<close> sends the
  write with the body \<open>{Id: "42", SyncToken: "3", sparse: true}\<close> exactly.
\<close>

theorem deactivation_write_body:
  assumes "js_get existing ''Id'' = JStr ''42''" and "js_get existing ''SyncToken'' = JStr ''3''"
  shows "(getAccountRaw e ident w = (Inr existing, w1) \<longrightarrow>
            snd (update_account e
                   [(''accountId'', JStr ident), (''sparse'', JBool True), (''active'', JBool False)] w)
            = snd (qbRequest e ''account?operation=update''
                     \<lparr>http_method = Some ''POST'', body = deactivation_body, headers = None\<rparr> w1)
            \<and> snd (set_account_active e [(''accountId'', JStr ident), (''active'', JBool False)] w)
            = snd (qbRequest e ''account?operation=update''
                     \<lparr>http_method = Some ''POST'', body = deactivation_body, headers = None\<rparr> w1))
         \<and> (getCustomerRaw e ident w = (Inr existing, w1) \<longrightarrow>
            snd (set_customer_active e [(''customerId'', JStr ident), (''active'', JBool False)] w)
            = snd (qbRequest e ''customer?operation=update''
                     \<lparr>http_method = Some ''POST'', body = deactivation_body, headers = None\<rparr> w1)
            \<and> snd (update_customer e
                   [(''customerId'', JStr ident), (''sparse'', JBool True), (''active'', JBool False)] w)
            = snd (qbRequest e ''customer?operation=update''
                     \<lparr>http_method = Some ''POST'',
                      body = JObj [(''Id'', JStr ''42''), (''SyncToken'', JStr ''3''),
                                   (''sparse'', JBool True)],
                      headers = None\<rparr> w1))"
proof -
  have g: "truthy (js_opt_get existing ''Id'')" "js_get existing ''SyncToken'' \<noteq> JUndefined"
    using assms by (cases existing; simp add: js_opt_get_def nullish_def)+
  have r: "rest_props [''accountId'', ''sparse'']
             [(''accountId'', JStr ident), (''sparse'', JBool True), (''active'', JBool False)]
           = [(''active'', JBool False)]"
    "rest_props [''customerId'', ''sparse'']
             [(''customerId'', JStr ident), (''sparse'', JBool True), (''active'', JBool False)]
           = [(''active'', JBool False)]"
    by (simp_all add: rest_props_def)
  note b = bodies_42 [OF assms]
  show ?thesis
    by (intro conjI impI)
       (simp_all add: update_account_def set_account_active_def update_customer_def
          set_customer_active_def Let_def obj_get_def g r b split: prod.splits sum.splits)
qed

theorem deactivation_write_body_witness:
  "snd (update_account (sample_env expired_remote)
          [(''accountId'', JStr ''42''), (''sparse'', JBool True), (''active'', JBool False)]
          (signed_in ''new''))
     = snd (qbRequest (sample_env expired_remote) ''account?operation=update''
              \<lparr>http_method = Some ''POST'', body = deactivation_body, headers = None\<rparr>
              (snd (getAccountRaw (sample_env expired_remote) ''42'' (signed_in ''new''))))
   \<and> snd (set_customer_active (sample_env expired_remote)
          [(''customerId'', JStr ''42''), (''active'', JBool False)] (signed_in ''new''))
     = snd (qbRequest (sample_env expired_remote) ''customer?operation=update''
              \<lparr>http_method = Some ''POST'', body = deactivation_body, headers = None\<rparr>
              (snd (getCustomerRaw (sample_env expired_remote) ''42'' (signed_in ''new''))))
   \<and> fst (getAccountRaw (sample_env expired_remote) ''42'' (signed_in ''new'')) = Inr ex42
   \<and> fst (getCustomerRaw (sample_env expired_remote) ''42'' (signed_in ''new'')) = Inr ex42"
proof -
  let ?e = "sample_env expired_remote"
  let ?w = "signed_in ''new''"
  have ex: "js_get ex42 ''Id'' = JStr ''42''" "js_get ex42 ''SyncToken'' = JStr ''3''"
    by (simp_all add: ex42_def obj_get_def)
  have ra: "getAccountRaw ?e ''42'' ?w = (Inr ex42, snd (getAccountRaw ?e ''42'' ?w))"
    and rc: "getCustomerRaw ?e ''42'' ?w = (Inr ex42, snd (getCustomerRaw ?e ''42'' ?w))"
    by (simp_all add: sample_read_account_42 sample_read_42)
  from deactivation_write_body [OF ex, of ?e "''42''" ?w "snd (getAccountRaw ?e ''42'' ?w)"] ra
  have a: "snd (update_account ?e
          [(''accountId'', JStr ''42''), (''sparse'', JBool True), (''active'', JBool False)] ?w)
     = snd (qbRequest ?e ''account?operation=update''
              \<lparr>http_method = Some ''POST'', body = deactivation_body, headers = None\<rparr>
              (snd (getAccountRaw ?e ''42'' ?w)))"
    by blast
  from deactivation_write_body [OF ex, of ?e "''42''" ?w "snd (getCustomerRaw ?e ''42'' ?w)"] rc
  have c: "snd (set_customer_active ?e [(''customerId'', JStr ''42''), (''active'', JBool False)] ?w)
     = snd (qbRequest ?e ''customer?operation=update''
              \<lparr>http_method = Some ''POST'', body = deactivation_body, headers = None\<rparr>
              (snd (getCustomerRaw ?e ''42'' ?w)))"
    by blast
  from a c ra rc show ?thesis by (simp add: prod_eq_iff)
qed

subsection \<open>The callback of the interactive authorization\<close>

text \<open>
  C9. In the callback handler, whenever a code is present and the body of the token
  endpoint's response parses as JSON, whatever the HTTP status of that response: the
  parsed body becomes the credential bundle, its serialization is written to the
  credentials file, the browser is told "Authentication successful!" and the promise of
  \<open>authenticate\<close> is resolved. The status is never looked at, so a non-2xx answer with a
  JSON error payload is saved as credentials and reported as success.
\<close>

theorem callback_saves_any_json:
  assumes "truthy code"
      and "remote e (trace w) (code_request e code) = Response status text"
      and "JSON_parse e text = Some data"
  shows "authenticate_callback e code w =
           ((Some ''Authentication successful! You can close this window.'', Inr ()),
            w\<lparr>tokens := data,
              disk := Some (JSON_stringify_pretty e data),
              trace := trace w @ [code_request e code]\<rparr>)"
  using assms by (simp add: authenticate_callback_def fetch_def saveTokens_def)

theorem callback_saves_any_json_witness:
  "\<not> ok 400
   \<and> remote (sample_env denied_remote) (trace start_world)
        (code_request (sample_env denied_remote) (JStr ''abc''))
      = Response 400 invalid_grant_text
   \<and> authenticate_callback (sample_env denied_remote) (JStr ''abc'') start_world =
       ((Some ''Authentication successful! You can close this window.'', Inr ()),
        \<lparr>tokens = JObj [(''error'', JStr ''invalid_grant'')],
         disk = Some (sample_stringify (JObj [(''error'', JStr ''invalid_grant'')])),
         trace = [code_request (sample_env denied_remote) (JStr ''abc'')]\<rparr>)"
proof -
  let ?e = "sample_env denied_remote"
  have c: "truthy (JStr ''abc'')" by simp
  have r: "remote ?e (trace start_world) (code_request ?e (JStr ''abc''))
             = Response 400 invalid_grant_text"
    by (simp add: denied_remote_def sample_remote_def code_request_def)
  have p: "JSON_parse ?e invalid_grant_text = Some (JObj [(''error'', JStr ''invalid_grant'')])"
    by (simp add: sample_parse_def rotated_tokens_text_def customer_42_text_def
          account_42_text_def invalid_grant_text_def)
  have n: "\<not> ok 400" by (simp add: ok_def)
  from callback_saves_any_json [OF c r p] n r show ?thesis
    by (simp add: start_world_def)
qed

subsection \<open>Empty text fields in the mappers\<close>

text \<open>
  C10, as stated, fails: not every text field is gated on truthiness. An empty
  \<open>taxCodeRef\<close> is emitted as \<open>TaxCodeRef: {value: ""}\<close>, and an empty line of an
  address is copied into \<open>BillAddr\<close>.
\<close>

theorem empty_text_emitted:
  "mapAccountInputToQBO [(''taxCodeRef'', JStr '''')]
     = [(''TaxCodeRef'', JObj [(''value'', JStr '''')])]
   \<and> mapCustomerInputToQBO [(''billAddr'', JObj [(''line1'', JStr '''')])]
     = [(''BillAddr'',
         JObj [(''Line1'', JStr ''''), (''Line2'', JUndefined), (''City'', JUndefined),
               (''CountrySubDivisionCode'', JUndefined), (''PostalCode'', JUndefined),
               (''Country'', JUndefined)])]"
  by (simp add: mapAccountInputToQBO_def mapCustomerInputToQBO_def assign_if_def obj_get_def Let_def)

text \<open>
  C10, amended. For every input, each of the text fields gated on truthiness (those of
  \<open>customer_text_fields\<close> and \<open>account_text_fields\<close>) is absent from the result of its
  mapper exactly when its value is falsy; so it is omitted when its value is the empty
  string, and the write body of an update built from that patch has no such property:
  the update cannot clear one of these fields to the empty string.
  \<open>taxCodeRef\<close> is gated on its type being string, like the booleans \<open>taxExempt\<close>,
  \<open>active\<close> and \<open>subAccount\<close> on theirs being boolean: an empty \<open>taxCodeRef\<close> is emitted.
  When \<open>billAddr\<close> (\<open>shipAddr\<close>) is truthy, \<open>BillAddr\<close> (\<open>ShipAddr\<close>) holds its six lines
  as they are read, with no test on a line; when it is not, the property is absent.

  On a store of objects, a mapper called with the reference of an object of the store
  returns a reference that the store did not hold, and leaves the store it found with
  one object appended: the object it has built, whose properties are those that the
  mapper gives for the input object. Every object of the store it found, the input
  among them, is as it was.
\<close>

theorem empty_text_omitted:
  "(\<forall>(f, F)\<in>set customer_text_fields.
      (map_of (mapCustomerInputToQBO input) F = None) = (\<not> truthy (obj_get input f))
      \<and> (obj_get input f = JStr '''' \<longrightarrow>
           map_of (mapCustomerInputToQBO input) F = None
           \<and> js_get (update_body existing sparse (mapCustomerInputToQBO input)) F = JUndefined))
   \<and> (\<forall>(f, F)\<in>set account_text_fields.
      (map_of (mapAccountInputToQBO input) F = None) = (\<not> truthy (obj_get input f))
      \<and> (obj_get input f = JStr '''' \<longrightarrow>
           map_of (mapAccountInputToQBO input) F = None
           \<and> js_get (update_body existing sparse (mapAccountInputToQBO input)) F = JUndefined))
   \<and> map_of (mapAccountInputToQBO input) ''TaxCodeRef''
       = (if js_typeof (obj_get input ''taxCodeRef'') = ''string''
          then Some (JObj [(''value'', obj_get input ''taxCodeRef'')]) else None)
   \<and> map_of (mapCustomerInputToQBO input) ''Taxable''
       = (if js_typeof (obj_get input ''taxExempt'') = ''boolean''
          then Some (JBool (\<not> truthy (obj_get input ''taxExempt''))) else None)
   \<and> map_of (mapAccountInputToQBO input) ''Active''
       = (if js_typeof (obj_get input ''active'') = ''boolean''
          then Some (obj_get input ''active'') else None)
   \<and> map_of (mapAccountInputToQBO input) ''SubAccount''
       = (if js_typeof (obj_get input ''subAccount'') = ''boolean''
          then Some (obj_get input ''subAccount'') else None)
   \<and> map_of (mapCustomerInputToQBO input) ''BillAddr''
       = (if truthy (obj_get input ''billAddr'')
          then Some (JObj
            [(''Line1'', js_get (obj_get input ''billAddr'') ''line1''),
             (''Line2'', js_get (obj_get input ''billAddr'') ''line2''),
             (''City'', js_get (obj_get input ''billAddr'') ''city''),
             (''CountrySubDivisionCode'', js_get (obj_get input ''billAddr'') ''countrySubDivisionCode''),
             (''PostalCode'', js_get (obj_get input ''billAddr'') ''postalCode''),
             (''Country'', js_get (obj_get input ''billAddr'') ''country'')])
          else None)
   \<and> map_of (mapCustomerInputToQBO input) ''ShipAddr''
       = (if truthy (obj_get input ''shipAddr'')
          then Some (JObj
            [(''Line1'', js_get (obj_get input ''shipAddr'') ''line1''),
             (''Line2'', js_get (obj_get input ''shipAddr'') ''line2''),
             (''City'', js_get (obj_get input ''shipAddr'') ''city''),
             (''CountrySubDivisionCode'', js_get (obj_get input ''shipAddr'') ''countrySubDivisionCode''),
             (''PostalCode'', js_get (obj_get input ''shipAddr'') ''postalCode''),
             (''Country'', js_get (obj_get input ''shipAddr'') ''country'')])
          else None)
   \<and> (input_ref < length st \<longrightarrow>
        mapCustomerInputToQBO_store input_ref st
          = (length st, st @ [mapCustomerInputToQBO (st ! input_ref)]))
   \<and> (input_ref < length st \<longrightarrow>
        mapAccountInputToQBO_store input_ref st
          = (length st, st @ [mapAccountInputToQBO (st ! input_ref)]))"
proof (intro conjI ballI)
  fix p assume m: "p \<in> set customer_text_fields"
  obtain f F where p: "p = (f, F)" by (cases p)
  have "obj_get input f = JStr '''' \<longrightarrow>
          map_of (mapCustomerInputToQBO input) F = None
          \<and> js_get (update_body existing sparse (mapCustomerInputToQBO input)) F = JUndefined"
  proof (intro impI conjI)
    assume v: "obj_get input f = JStr ''''"
    then have "\<not> truthy (obj_get input f)" by simp
    with m [unfolded p] show "map_of (mapCustomerInputToQBO input) F = None"
      by (rule customer_text_omitted)
    from v m [unfolded p]
    show "js_get (update_body existing sparse (mapCustomerInputToQBO input)) F = JUndefined"
      by (rule sparse_update_keeps_text(1))
  qed
  moreover from m [unfolded p]
  have "(map_of (mapCustomerInputToQBO input) F = None) = (\<not> truthy (obj_get input f))"
    by (rule customer_text_gated)
  ultimately show "case p of (f, F) \<Rightarrow>
      (map_of (mapCustomerInputToQBO input) F = None) = (\<not> truthy (obj_get input f))
      \<and> (obj_get input f = JStr '''' \<longrightarrow>
           map_of (mapCustomerInputToQBO input) F = None
           \<and> js_get (update_body existing sparse (mapCustomerInputToQBO input)) F = JUndefined)"
    unfolding p prod.case by (intro conjI)
next
  fix p assume m: "p \<in> set account_text_fields"
  obtain f F where p: "p = (f, F)" by (cases p)
  have "obj_get input f = JStr '''' \<longrightarrow>
          map_of (mapAccountInputToQBO input) F = None
          \<and> js_get (update_body existing sparse (mapAccountInputToQBO input)) F = JUndefined"
  proof (intro impI conjI)
    assume v: "obj_get input f = JStr ''''"
    then have "\<not> truthy (obj_get input f)" by simp
    with m [unfolded p] show "map_of (mapAccountInputToQBO input) F = None"
      by (rule account_text_omitted)
    from v m [unfolded p]
    show "js_get (update_body existing sparse (mapAccountInputToQBO input)) F = JUndefined"
      by (rule sparse_update_keeps_text(2))
  qed
  moreover from m [unfolded p]
  have "(map_of (mapAccountInputToQBO input) F = None) = (\<not> truthy (obj_get input f))"
    by (rule account_text_gated)
  ultimately show "case p of (f, F) \<Rightarrow>
      (map_of (mapAccountInputToQBO input) F = None) = (\<not> truthy (obj_get input f))
      \<and> (obj_get input f = JStr '''' \<longrightarrow>
           map_of (mapAccountInputToQBO input) F = None
           \<and> js_get (update_body existing sparse (mapAccountInputToQBO input)) F = JUndefined)"
    unfolding p prod.case by (intro conjI)
qed (simp_all add: mapAccountInputToQBO_def mapCustomerInputToQBO_def map_of_assign_if Let_def
       mapCustomerInputToQBO_store_eq mapAccountInputToQBO_store_eq)

theorem empty_text_omitted_witness:
  "map_of (mapCustomerInputToQBO [(''displayName'', JStr ''''), (''notes'', JStr ''x'')])
       ''DisplayName'' = None
   \<and> js_get (update_body ex42 (JBool True)
               (mapCustomerInputToQBO [(''displayName'', JStr ''''), (''notes'', JStr ''x'')]))
       ''DisplayName'' = JUndefined
   \<and> map_of (mapAccountInputToQBO [(''name'', JStr ''''), (''taxCodeRef'', JStr '''')])
       ''Name'' = None
   \<and> map_of (mapAccountInputToQBO [(''name'', JStr ''''), (''taxCodeRef'', JStr '''')])
       ''TaxCodeRef'' = Some (JObj [(''value'', JStr '''')])
   \<and> map_of (mapCustomerInputToQBO
               [(''shipAddr'', JObj [(''line1'', JStr ''1 Main St''), (''city'', JStr '''')])])
       ''ShipAddr''
       = Some (JObj [(''Line1'', JStr ''1 Main St''), (''Line2'', JUndefined),
                     (''City'', JStr ''''), (''CountrySubDivisionCode'', JUndefined),
                     (''PostalCode'', JUndefined), (''Country'', JUndefined)])
   \<and> mapCustomerInputToQBO_store 1
        [[(''Id'', JStr ''42'')], [(''displayName'', JStr ''Acme''), (''notes'', JStr '''')]]
       = (2, [[(''Id'', JStr ''42'')], [(''displayName'', JStr ''Acme''), (''notes'', JStr '''')],
              [(''DisplayName'', JStr ''Acme'')]])
   \<and> mapAccountInputToQBO_store 0 [[(''name'', JStr ''Cash''), (''active'', JBool False)]]
       = (1, [[(''name'', JStr ''Cash''), (''active'', JBool False)],
              [(''Name'', JStr ''Cash''), (''Active'', JBool False)]])"
proof -
  let ?c = "[(''displayName'', JStr ''''), (''notes'', JStr ''x'')]"
  let ?a = "[(''name'', JStr ''''), (''taxCodeRef'', JStr '''')]"
  let ?s = "[(''shipAddr'', JObj [(''line1'', JStr ''1 Main St''), (''city'', JStr '''')])]"
  let ?st1 = "[[(''Id'', JStr ''42'')], [(''displayName'', JStr ''Acme''), (''notes'', JStr '''')]]"
  let ?st2 = "[[(''name'', JStr ''Cash''), (''active'', JBool False)]]"
  have m: "(''displayName'', ''DisplayName'') \<in> set customer_text_fields"
    "(''name'', ''Name'') \<in> set account_text_fields"
    by (simp_all add: customer_text_fields_def account_text_fields_def)
  have v: "obj_get ?c ''displayName'' = JStr ''''" "obj_get ?a ''name'' = JStr ''''"
    "obj_get ?a ''taxCodeRef'' = JStr ''''"
    by (simp_all add: obj_get_def)
  from empty_text_omitted [of ?c ex42 "JBool True" 0 "[[]]"] m(1) v(1)
  have a: "map_of (mapCustomerInputToQBO ?c) ''DisplayName'' = None
           \<and> js_get (update_body ex42 (JBool True) (mapCustomerInputToQBO ?c)) ''DisplayName''
               = JUndefined"
    by blast
  from empty_text_omitted [of ?a ex42 "JBool True" 0 "[[]]"] m(2) v(2)
  have b: "map_of (mapAccountInputToQBO ?a) ''Name'' = None" by blast
  note T = empty_text_omitted [of ?a ex42 "JBool True" 0 "[[]]"]
  have c: "map_of (mapAccountInputToQBO ?a) ''TaxCodeRef'' = Some (JObj [(''value'', JStr '''')])"
    using T [THEN conjunct2, THEN conjunct2, THEN conjunct1] by (simp add: v)
  note S = empty_text_omitted [of ?s ex42 "JBool True" 0 "[[]]"]
  have d: "map_of (mapCustomerInputToQBO ?s) ''ShipAddr''
       = Some (JObj [(''Line1'', JStr ''1 Main St''), (''Line2'', JUndefined),
                     (''City'', JStr ''''), (''CountrySubDivisionCode'', JUndefined),
                     (''PostalCode'', JUndefined), (''Country'', JUndefined)])"
    using S [THEN conjunct2, THEN conjunct2, THEN conjunct2, THEN conjunct2, THEN conjunct2,
             THEN conjunct2, THEN conjunct2, THEN conjunct1]
    by (simp add: obj_get_def)
  note U = empty_text_omitted [of ?c ex42 "JBool True" 1 ?st1]
  have e: "mapCustomerInputToQBO_store 1 ?st1
       = (2, ?st1 @ [[(''DisplayName'', JStr ''Acme'')]])"
    using U [THEN conjunct2, THEN conjunct2, THEN conjunct2, THEN conjunct2, THEN conjunct2,
             THEN conjunct2, THEN conjunct2, THEN conjunct2, THEN conjunct1]
    by (simp add: mapCustomerInputToQBO_def assign_if_def obj_get_def Let_def)
  note V = empty_text_omitted [of ?c ex42 "JBool True" 0 ?st2]
  have f: "mapAccountInputToQBO_store 0 ?st2
       = (1, ?st2 @ [[(''Name'', JStr ''Cash''), (''Active'', JBool False)]])"
    using V [THEN conjunct2, THEN conjunct2, THEN conjunct2, THEN conjunct2, THEN conjunct2,
             THEN conjunct2, THEN conjunct2, THEN conjunct2, THEN conjunct2]
    by (simp add: mapAccountInputToQBO_def assign_if_def obj_get_def Let_def)
  from a b c d e f show ?thesis by simp
qed

end
